theory Spec2Isabelle
  imports Main "HOL-Library.AList" "HOL-Library.Char_ord" "HOL-Library.List_Lexorder"
begin

section \<open>Python strings\<close>

text \<open>
  A Python \<open>str\<close> is modelled as a HOL \<open>string\<close>; a \<open>char\<close> stands for the code
  point of the same number (U+0000 to U+00FF). \<open>str.strip()\<close> removes the characters
  for which \<open>str.isspace\<close> holds from both ends; in this range they are the twelve
  code points below.
\<close>

definition py_isspace :: "char \<Rightarrow> bool" where
  "py_isspace c = (of_char c \<in> set [9, 10, 11, 12, 13, 28, 29, 30, 31, 32, 133, 160 :: nat])"

definition py_strip :: "string \<Rightarrow> string" where
  "py_strip s = rev (dropWhile py_isspace (rev (dropWhile py_isspace s)))"

definition is_digit :: "char \<Rightarrow> bool" where
  "is_digit c = (c \<in> set ''0123456789'')"

definition digit_val :: "char \<Rightarrow> nat" where
  "digit_val c = of_char c - 48"

definition digits_val :: "string \<Rightarrow> nat" where
  "digits_val ds = foldl (\<lambda>n c. 10 * n + digit_val c) 0 ds"

definition ascii_lower :: "char \<Rightarrow> char" where
  "ascii_lower c =
     (case map_of (zip ''ABCDEFGHIJKLMNOPQRSTUVWXYZ'' ''abcdefghijklmnopqrstuvwxyz'') c of
        Some l \<Rightarrow> l
      | None \<Rightarrow> c)"

text \<open>\<open>sep.join(xs)\<close>\<close>

fun join :: "string \<Rightarrow> string list \<Rightarrow> string" where
  "join sep [] = []"
| "join sep [x] = x"
| "join sep (x # y # ys) = x @ sep @ join sep (y # ys)"

section \<open>Exceptions\<close>

datatype exn =
    ValueError string
  | TypeError
  | AttributeError
  | InvalidOperation
  | KeyError
  | Overflow
  | StoreError nat

text \<open>
  A statement that may raise returns a sum, \<open>Inl\<close> the exception. \<open>then_do\<close>
  runs the next statement unless the first raised; \<open>for_each\<close> is a \<open>for\<close> loop
  whose body may raise: the loop stops at the first exception and hands it out with
  the state the failing iteration began in.
\<close>

fun then_do :: "exn + 'a \<Rightarrow> ('a \<Rightarrow> exn + 'b) \<Rightarrow> exn + 'b" where
  "then_do (Inl e) f = Inl e"
| "then_do (Inr x) f = f x"

fun for_each :: "('a \<Rightarrow> 's \<Rightarrow> exn + 's) \<Rightarrow> 'a list \<Rightarrow> 's \<Rightarrow> (exn \<times> 's) + 's" where
  "for_each body [] s = Inr s"
| "for_each body (x # xs) s =
     (case body x s of Inl e \<Rightarrow> Inl (e, s) | Inr s' \<Rightarrow> for_each body xs s')"

section \<open>The \<open>decimal.Decimal\<close> values the scripts compute with\<close>

text \<open>
  A \<open>Decimal\<close> is a sign, a coefficient and an exponent, or one of the special values.
  Sign and payload of a NaN are not kept. The arithmetic is that of the default context:
  precision 28, rounding half-even, \<open>Emax = 999999\<close>, \<open>Emin = -999999\<close>, traps on
  \<open>InvalidOperation\<close> and \<open>Overflow\<close>.
\<close>

datatype decimal =
    Finite (dsign: bool) (coeff: nat) (expo: int)
  | Infinity bool
  | NaN
  | SNaN

definition dec_zero :: decimal where
  \<comment> \<open>\<open>Decimal("0")\<close>\<close>
  "dec_zero = Finite False 0 0"


fun ndigits :: "nat \<Rightarrow> nat" where
  "ndigits n = (if n < 10 then 1 else Suc (ndigits (n div 10)))"

declare ndigits.simps [simp del]

subsection \<open>The constructor \<open>Decimal(str)\<close>\<close>

text \<open>
  The constructor strips whitespace, drops every underscore and reads, without regard
  to case, an optional sign followed by a decimal numeral with an optional exponent, by
  \<open>Inf\<close> or \<open>Infinity\<close>, or by \<open>NaN\<close> or \<open>sNaN\<close> with optional diagnostic digits.
  The conversion is exact; a numeral outside the widest exponent range of the library
  is refused like any other malformed text, with \<open>InvalidOperation\<close>.
\<close>

definition signed_digits :: "string \<Rightarrow> int option" where
  "signed_digits s =
     (let (neg, ds) = (case s of c # r \<Rightarrow> if c = CHR ''-'' then (True, r)
                                          else if c = CHR ''+'' then (False, r)
                                          else (False, s)
                       | [] \<Rightarrow> (False, s))
      in if ds = [] \<or> \<not> list_all is_digit ds then None
         else Some (if neg then - int (digits_val ds) else int (digits_val ds)))"

definition mk_finite :: "bool \<Rightarrow> nat \<Rightarrow> int \<Rightarrow> decimal option" where
  "mk_finite s c e =
     (if e + int (ndigits c) - 1 \<le> 999999999999999999 \<and> - 1999999999999999997 \<le> e
      then Some (Finite s c e) else None)"

definition numeral_of :: "bool \<Rightarrow> string \<Rightarrow> decimal option" where
  "numeral_of neg body =
     (let ip = takeWhile is_digit body;
          r1 = dropWhile is_digit body;
          (fp, r2) = (case r1 of c # r \<Rightarrow> if c = CHR ''.''
                                          then (takeWhile is_digit r, dropWhile is_digit r)
                                          else ([], r1)
                      | [] \<Rightarrow> ([], r1))
      in if ip @ fp = [] then None
         else (case r2 of
                 [] \<Rightarrow> mk_finite neg (digits_val (ip @ fp)) (- int (length fp))
               | c # r \<Rightarrow>
                   if c = CHR ''e''
                   then (case signed_digits r of
                           None \<Rightarrow> None
                         | Some x \<Rightarrow> mk_finite neg (digits_val (ip @ fp)) (x - int (length fp)))
                   else None))"

definition Decimal :: "string \<Rightarrow> exn + decimal" where
  "Decimal text =
     (let s = map ascii_lower (filter (\<lambda>c. c \<noteq> CHR ''_'') (py_strip text));
          (neg, body) = (case s of c # r \<Rightarrow> if c = CHR ''-'' then (True, r)
                                            else if c = CHR ''+'' then (False, r)
                                            else (False, s)
                         | [] \<Rightarrow> (False, s))
      in if body = ''inf'' \<or> body = ''infinity'' then Inr (Infinity neg)
         else if take 3 body = ''nan'' \<and> list_all is_digit (drop 3 body) then Inr NaN
         else if take 4 body = ''snan'' \<and> list_all is_digit (drop 4 body) then Inr SNaN
         else (case numeral_of neg body of
                 Some d \<Rightarrow> Inr d
               | None \<Rightarrow> Inl InvalidOperation))"

subsection \<open>Comparison: \<open>a != b\<close>\<close>

text \<open>
  Comparison is by numerical value. A quiet NaN differs from everything, itself
  included; a signaling NaN makes the comparison raise \<open>InvalidOperation\<close>.
\<close>

definition signed :: "bool \<Rightarrow> nat \<Rightarrow> int" where
  "signed s c = (if s then - int c else int c)"

fun dec_eq :: "decimal \<Rightarrow> decimal \<Rightarrow> exn + bool" where
  "dec_eq SNaN b = Inl InvalidOperation"
| "dec_eq a SNaN = Inl InvalidOperation"
| "dec_eq NaN b = Inr False"
| "dec_eq a NaN = Inr False"
| "dec_eq (Infinity s) (Infinity t) = Inr (s = t)"
| "dec_eq (Infinity s) (Finite t d f) = Inr False"
| "dec_eq (Finite s c e) (Infinity t) = Inr False"
| "dec_eq (Finite s c e) (Finite t d f) =
     Inr (signed s c * 10 ^ nat (e - min e f) = signed t d * 10 ^ nat (f - min e f))"

definition dec_ne :: "decimal \<Rightarrow> decimal \<Rightarrow> exn + bool" where
  "dec_ne a b = (case dec_eq a b of Inl e \<Rightarrow> Inl e | Inr r \<Rightarrow> Inr (\<not> r))"

subsection \<open>Arithmetic: \<open>a + b\<close> and \<open>a * b\<close>\<close>

definition prec :: int where "prec = 28"
definition Emax :: int where "Emax = 999999"
definition Emin :: int where "Emin = - 999999"
definition Etiny :: int where "Etiny = Emin - prec + 1"
definition Etop :: int where "Etop = Emax - prec + 1"

definition round_half_even :: "nat \<Rightarrow> nat \<Rightarrow> nat" where
  \<comment> \<open>the coefficient \<open>c\<close> without its last \<open>k\<close> digits, rounded half-even\<close>
  "round_half_even c k =
     (let q = c div 10 ^ k; r = c mod 10 ^ k
      in if 2 * r > 10 ^ k \<or> (2 * r = 10 ^ k \<and> odd q) then q + 1 else q)"

definition dec_fix :: "bool \<Rightarrow> nat \<Rightarrow> int \<Rightarrow> exn + decimal" where
  \<comment> \<open>the exact result brought into the context: rounded to \<open>prec\<close> digits, or \<open>Overflow\<close>\<close>
  "dec_fix s c e =
     (if c = 0 then Inr (Finite s 0 (min (max e Etiny) Emax))
      else if int (ndigits c) + e - prec > Etop then Inl Overflow
      else (let exp_min = max (int (ndigits c) + e - prec) Etiny
            in if e < exp_min
               then (let c1 = round_half_even c (nat (exp_min - e));
                         (c2, e2) = (if int (ndigits c1) > prec then (c1 div 10, exp_min + 1)
                                     else (c1, exp_min))
                     in if e2 > Etop then Inl Overflow else Inr (Finite s c2 e2))
               else Inr (Finite s c e)))"

fun dec_add :: "decimal \<Rightarrow> decimal \<Rightarrow> exn + decimal" where
  "dec_add SNaN b = Inl InvalidOperation"
| "dec_add a SNaN = Inl InvalidOperation"
| "dec_add NaN b = Inr NaN"
| "dec_add a NaN = Inr NaN"
| "dec_add (Infinity s) (Infinity t) = (if s = t then Inr (Infinity s) else Inl InvalidOperation)"
| "dec_add (Infinity s) (Finite t d f) = Inr (Infinity s)"
| "dec_add (Finite s c e) (Infinity t) = Inr (Infinity t)"
| "dec_add (Finite s c e) (Finite t d f) =
     (let m = min e f;
          v = signed s c * 10 ^ nat (e - m) + signed t d * 10 ^ nat (f - m)
      in if v = 0 then dec_fix (s \<and> t) 0 m else dec_fix (v < 0) (nat \<bar>v\<bar>) m)"

fun dec_mul :: "decimal \<Rightarrow> decimal \<Rightarrow> exn + decimal" where
  "dec_mul SNaN b = Inl InvalidOperation"
| "dec_mul a SNaN = Inl InvalidOperation"
| "dec_mul NaN b = Inr NaN"
| "dec_mul a NaN = Inr NaN"
| "dec_mul (Infinity s) (Infinity t) = Inr (Infinity (s \<noteq> t))"
| "dec_mul (Infinity s) (Finite t d f) =
     (if d = 0 then Inl InvalidOperation else Inr (Infinity (s \<noteq> t)))"
| "dec_mul (Finite s c e) (Infinity t) =
     (if c = 0 then Inl InvalidOperation else Inr (Infinity (s \<noteq> t)))"
| "dec_mul (Finite s c e) (Finite t d f) = dec_fix (s \<noteq> t) (c * d) (e + f)"

section \<open>\<open>db_connection.parse_decimal\<close>\<close>

text \<open>
  \<open>value\<close> is \<open>str | None\<close>. The body of the \<open>try\<close> is the inner \<open>let\<close>; the
  \<open>except\<close> clause catches \<open>InvalidOperation\<close> and \<open>AttributeError\<close> and lets
  anything else through.
\<close>

definition parse_decimal :: "string option \<Rightarrow> decimal \<Rightarrow> exn + decimal" where
  "parse_decimal v dflt =
     (case v of
        None \<Rightarrow> Inr dflt
      | Some s \<Rightarrow>
          if s = [] then Inr dflt
          else (case (let cleaned = filter (\<lambda>c. c \<noteq> CHR '','') (py_strip s)
                      in if cleaned \<noteq> [] then Decimal cleaned else Inr dflt) of
                  Inr d \<Rightarrow> Inr d
                | Inl e \<Rightarrow> if e = InvalidOperation \<or> e = AttributeError then Inr dflt
                           else Inl e))"

section \<open>The rows \<open>csv.DictReader\<close> yields\<close>

text \<open>
  The input of a reader is the list of rows \<open>csv.reader\<close> produces for the file, the
  header row first; a blank line is the empty row. \<open>DictReader\<close> takes the first row as
  \<open>fieldnames\<close>, skips empty rows, and turns every other row into a dictionary: the
  cells under their field names (a later duplicate name overwrites the value and keeps
  the position), \<open>None\<close> for the fields a short row lacks, and the surplus cells of a
  long row as one list under the key \<open>None\<close>. A dictionary is an association list in
  insertion order; the entry under the key \<open>None\<close>, which comes last, is kept apart.
\<close>

record dict_row =
  named :: "(string \<times> string option) list"
  surplus :: "string list option"

definition dict_row_of :: "string list \<Rightarrow> string list \<Rightarrow> dict_row" where
  "dict_row_of fieldnames row =
     (let d = foldl (\<lambda>d (k, v). AList.update k (Some v) d) [] (zip fieldnames row);
          lf = length fieldnames;
          lr = length row
      in if lf < lr then \<lparr>named = d, surplus = Some (drop lf row)\<rparr>
         else \<lparr>named = foldl (\<lambda>d k. AList.update k None d) d (drop lr fieldnames),
               surplus = None\<rparr>)"

definition dict_rows :: "string list \<Rightarrow> string list list \<Rightarrow> dict_row list" where
  "dict_rows fieldnames body = map (dict_row_of fieldnames) (filter (\<lambda>r. r \<noteq> []) body)"

definition dict_get :: "(string \<times> 'a option) list \<Rightarrow> string \<Rightarrow> 'a option" where
  \<comment> \<open>\<open>d.get(k)\<close>: \<open>None\<close> for a missing key and for a key that holds \<open>None\<close>\<close>
  "dict_get d k = (case map_of d k of None \<Rightarrow> None | Some v \<Rightarrow> v)"

definition missing_columns :: "string list \<Rightarrow> string list \<Rightarrow> string list" where
  \<comment> \<open>\<open>sorted(required_cols - header)\<close> with \<open>header = {h.strip() for h in fieldnames}\<close>\<close>
  "missing_columns required_cols fieldnames =
     sort (filter (\<lambda>c. c \<notin> set (map py_strip fieldnames)) (remdups required_cols))"

definition missing_message :: "string list \<Rightarrow> string" where
  "missing_message missing = ''CSV missing required columns: '' @ join '', '' missing"

section \<open>What the scripts print\<close>

datatype event =
    Invalid_product_id "string option"
  | No_valid_product_data
  | New_price int decimal
  | Price_updated int decimal decimal
  | Price_unchanged int decimal
  | Import_summary nat nat nat
  | Error_during_import exn
  | Imported_bill nat decimal decimal decimal decimal

section \<open>\<open>import_product_list.read_product_csv\<close>\<close>

text \<open>
  \<open>int(x)\<close> on a cell: \<open>TypeError\<close> on \<open>None\<close>, \<open>ValueError\<close> unless the text is an
  optional sign and decimal digits, single underscores allowed between digits. The
  cell has been stripped before, so the whitespace \<open>int\<close> would skip is not there.
\<close>

fun int_digits :: "string \<Rightarrow> bool" where
  "int_digits [] = False"
| "int_digits [c] = is_digit c"
| "int_digits (c # d # r) =
     (is_digit c \<and> (if d = CHR ''_'' then int_digits r else int_digits (d # r)))"

definition py_int :: "string option \<Rightarrow> exn + int" where
  "py_int v =
     (case v of
        None \<Rightarrow> Inl TypeError
      | Some s \<Rightarrow>
          (let (neg, ds) = (case s of c # r \<Rightarrow> if c = CHR ''-'' then (True, r)
                                               else if c = CHR ''+'' then (False, r)
                                               else (False, s)
                            | [] \<Rightarrow> (False, s));
               n = int (digits_val (filter (\<lambda>c. c \<noteq> CHR ''_'') ds))
           in if int_digits ds then Inr (if neg then - n else n)
              else Inl (ValueError (''invalid literal for int() with base 10: '' @ s))))"

text \<open>
  A row as \<open>read_product_csv\<close> returns it. Of the dictionary \<open>row_data\<close> the record
  keeps the entries the importer reads: \<open>product_id\<close> (an \<open>int\<close> by then),
  \<open>product_name\<close>, \<open>source\<close>, \<open>unit\<close> (text or \<open>None\<close>; \<open>None\<close> also when the
  column is absent, as \<open>.get\<close> gives) and \<open>cost_per_unit\<close>, which is a \<open>Decimal\<close>,
  or \<open>None\<close> when the cell is blank or the column absent.
\<close>

record product_row =
  row_product_id :: int
  row_product_name :: "string option"
  row_source :: "string option"
  row_unit :: "string option"
  row_cost_per_unit :: "decimal option"

definition clean_cell :: "string option \<Rightarrow> string option" where
  \<comment> \<open>\<open>value = v.strip() if isinstance(v, str) else v\<close>, then \<open>value if value != "" else None\<close>\<close>
  "clean_cell v =
     (case v of None \<Rightarrow> None
      | Some s \<Rightarrow> if py_strip s \<noteq> [] then Some (py_strip s) else None)"

definition clean_row :: "dict_row \<Rightarrow> exn + (string \<times> string option) list" where
  \<comment> \<open>the loop over \<open>r.items()\<close>; \<open>k.strip()\<close> raises on the key \<open>None\<close> of a long row\<close>
  "clean_row r =
     (let row_data = foldl (\<lambda>d (k, v). AList.update (py_strip k) (clean_cell v) d) [] (named r)
      in case surplus r of None \<Rightarrow> Inr row_data | Some cells \<Rightarrow> Inl AttributeError)"

definition parse_cost :: "(string \<times> string option) list \<Rightarrow> exn + decimal option" where
  \<comment> \<open>\<open>if "cost_per_unit" in row_data and row_data["cost_per_unit"]: ... parse_decimal(...)\<close>\<close>
  "parse_cost row_data =
     (case dict_get row_data ''cost_per_unit'' of
        None \<Rightarrow> Inr None
      | Some s \<Rightarrow> if s = [] then Inr None
                  else (case parse_decimal (Some s) dec_zero of
                          Inl e \<Rightarrow> Inl e
                        | Inr d \<Rightarrow> Inr (Some d)))"

definition product_id_of :: "(string \<times> string option) list \<Rightarrow> exn + int" where
  \<comment> \<open>\<open>int(row_data["product_id"])\<close>\<close>
  "product_id_of row_data =
     (case map_of row_data ''product_id'' of
        None \<Rightarrow> Inl KeyError
      | Some v \<Rightarrow> py_int v)"

fun caught_by_row :: "exn \<Rightarrow> bool" where
  \<comment> \<open>\<open>except (ValueError, TypeError)\<close>\<close>
  "caught_by_row (ValueError m) = True"
| "caught_by_row TypeError = True"
| "caught_by_row e = False"

fun read_rows ::
  "dict_row list \<Rightarrow> product_row list \<Rightarrow> event list \<Rightarrow> (exn + product_row list) \<times> event list"
where
  "read_rows [] rows out = (Inr rows, out)"
| "read_rows (r # rs) rows out =
     (case clean_row r of
        Inl e \<Rightarrow> (Inl e, out)
      | Inr row_data \<Rightarrow>
          (case product_id_of row_data of
             Inl e \<Rightarrow>
               if caught_by_row e
               then read_rows rs rows (out @ [Invalid_product_id (dict_get row_data ''product_id'')])
               else (Inl e, out)
           | Inr pid \<Rightarrow>
               (case parse_cost row_data of
                  Inl e \<Rightarrow> (Inl e, out)
                | Inr cost \<Rightarrow>
                    read_rows rs
                      (rows @ [\<lparr>row_product_id = pid,
                                row_product_name = dict_get row_data ''product_name'',
                                row_source = dict_get row_data ''source'',
                                row_unit = dict_get row_data ''unit'',
                                row_cost_per_unit = cost\<rparr>])
                      out)))"

definition product_required_cols :: "string list" where
  "product_required_cols = [''product_id'', ''product_name'']"

definition read_product_csv :: "string list list \<Rightarrow> (exn + product_row list) \<times> event list" where
  "read_product_csv csv =
     (case csv of
        [] \<Rightarrow> (Inl (ValueError ''CSV has no header row''), [])
      | fieldnames # body \<Rightarrow>
          if fieldnames = [] then (Inl (ValueError ''CSV has no header row''), [])
          else if missing_columns product_required_cols fieldnames \<noteq> []
          then (Inl (ValueError (missing_message
                       (missing_columns product_required_cols fieldnames))), [])
          else read_rows (dict_rows fieldnames body) [] [])"

section \<open>\<open>import_bill.read_bill_csv\<close>\<close>

definition bill_required_cols :: "string list" where
  "bill_required_cols = [''product_name'', ''quantity'', ''product_price'', ''tax_amount'', ''total'']"

definition strip_cells :: "dict_row \<Rightarrow> (string \<times> string option) list" where
  \<comment> \<open>\<open>{k: (v.strip() if isinstance(v, str) else v) for k, v in r.items()}\<close>, the named entries\<close>
  "strip_cells r = map (\<lambda>(k, v). (k, map_option py_strip v)) (named r)"

definition read_bill_csv :: "string list list \<Rightarrow> exn + (string \<times> string option) list list" where
  "read_bill_csv csv =
     (case csv of
        [] \<Rightarrow> Inl (ValueError ''CSV has no header row'')
      | fieldnames # body \<Rightarrow>
          if fieldnames = [] then Inl (ValueError ''CSV has no header row'')
          else if missing_columns bill_required_cols fieldnames \<noteq> []
          then Inl (ValueError (missing_message (missing_columns bill_required_cols fieldnames)))
          else Inr (map strip_cells (dict_rows fieldnames body)))"

section \<open>The relational store\<close>

text \<open>
  The four tables are lists of rows in insertion order; \<open>product\<close> is keyed by
  \<open>product_id\<close>. The store keeps a \<open>Decimal\<close> as it was given and hands it back
  unchanged. A connection holds the committed tables and the tables as the open
  transaction sees them. Any statement may fail: \<open>fails n\<close> says whether the
  \<open>n\<close>-th statement sent over the connection (counted from 0, \<open>commit\<close> included)
  raises. \<open>rollback\<close> and \<open>close\<close> do not fail.
\<close>

type_synonym timestamp = int

record product_rec =
  product_name :: "string option"
  source :: "string option"
  unit :: "string option"

record price_rec =
  product_id :: int
  cost_per_unit :: decimal
  created_when :: timestamp

record bill_rec =
  bill_id :: nat
  bill_number :: "string option"
  vendor_name :: "string option"
  bill_source :: string
  bill_date :: "(int \<times> int \<times> int) option"
  currency :: string
  subtotal_amount :: decimal
  tax_amount :: decimal
  shipping_amount :: decimal
  total_amount :: decimal
  bill_notes :: "string option"

record bill_item_rec =
  item_bill_id :: nat
  item_product_id :: "int option"
  item_product_name :: "string option"
  quantity :: decimal
  item_unit :: "string option"
  unit_price :: decimal
  line_total :: decimal

record tables =
  product_table :: "(int \<times> product_rec) list"
  product_price_table :: "price_rec list"
  bill_table :: "bill_rec list"
  bill_item_table :: "bill_item_rec list"

record connection =
  committed :: tables
  pending :: tables
  in_transaction :: bool
  closed :: bool
  statements :: nat

definition get_connection :: "tables \<Rightarrow> connection" where
  "get_connection db =
     \<lparr>committed = db, pending = db, in_transaction = False, closed = False, statements = 0\<rparr>"

definition query :: "(nat \<Rightarrow> bool) \<Rightarrow> connection \<Rightarrow> exn + connection" where
  \<comment> \<open>\<open>cur.execute\<close> of a \<open>SELECT\<close>\<close>
  "query fails conn =
     (if fails (statements conn) then Inl (StoreError (statements conn))
      else Inr (conn\<lparr>in_transaction := True, statements := Suc (statements conn)\<rparr>))"

definition execute :: "(nat \<Rightarrow> bool) \<Rightarrow> connection \<Rightarrow> (tables \<Rightarrow> tables) \<Rightarrow> exn + connection" where
  \<comment> \<open>\<open>cur.execute\<close> of an \<open>INSERT\<close> or \<open>UPDATE\<close> with effect \<open>f\<close>\<close>
  "execute fails conn f =
     (if fails (statements conn) then Inl (StoreError (statements conn))
      else Inr (conn\<lparr>pending := f (pending conn), in_transaction := True,
                     statements := Suc (statements conn)\<rparr>))"

definition commit :: "(nat \<Rightarrow> bool) \<Rightarrow> connection \<Rightarrow> exn + connection" where
  \<comment> \<open>without an open transaction \<open>commit\<close> sends nothing\<close>
  "commit fails conn =
     (if \<not> in_transaction conn then Inr conn
      else if fails (statements conn) then Inl (StoreError (statements conn))
      else Inr (conn\<lparr>committed := pending conn, in_transaction := False,
                     statements := Suc (statements conn)\<rparr>))"

definition rollback :: "connection \<Rightarrow> connection" where
  "rollback conn = conn\<lparr>pending := committed conn, in_transaction := False\<rparr>"

definition close :: "connection \<Rightarrow> connection" where
  \<comment> \<open>closing discards what is not committed\<close>
  "close conn = conn\<lparr>pending := committed conn, in_transaction := False, closed := True\<rparr>"

section \<open>\<open>import_product_list\<close>: the product importer\<close>

definition upsert_product :: "(nat \<Rightarrow> bool) \<Rightarrow> connection \<Rightarrow> product_row \<Rightarrow> exn + connection" where
  \<comment> \<open>\<open>INSERT ... ON CONFLICT (product_id) DO UPDATE SET ...\<close>\<close>
  "upsert_product fails conn product_data =
     execute fails conn
       (\<lambda>t. t\<lparr>product_table :=
                 AList.update (row_product_id product_data)
                   \<lparr>product_name = row_product_name product_data,
                    source = row_source product_data,
                    unit = row_unit product_data\<rparr>
                   (product_table t)\<rparr>)"

definition at_key :: "int \<Rightarrow> timestamp \<Rightarrow> price_rec \<Rightarrow> bool" where
  \<comment> \<open>\<open>WHERE product_id = %s AND created_when = %s\<close>\<close>
  "at_key pid ts r = (product_id r = pid \<and> created_when r = ts)"

definition set_cost :: "int \<Rightarrow> timestamp \<Rightarrow> decimal \<Rightarrow> price_rec list \<Rightarrow> price_rec list" where
  \<comment> \<open>\<open>UPDATE product_price SET cost_per_unit = %s WHERE product_id = %s AND created_when = %s\<close>\<close>
  "set_cost pid ts cost rows =
     map (\<lambda>r. if at_key pid ts r then r\<lparr>cost_per_unit := cost\<rparr> else r) rows"

definition insert_product_price ::
  "(nat \<Rightarrow> bool) \<Rightarrow> (nat \<Rightarrow> timestamp) \<Rightarrow> connection \<Rightarrow> int \<Rightarrow> decimal \<Rightarrow> timestamp option
     \<Rightarrow> exn + bool \<times> connection"
where
  \<comment> \<open>\<open>clock n\<close> is what \<open>datetime.now()\<close> reads after \<open>n\<close> statements;
      \<open>fetchone\<close> yields the first matching row\<close>
  "insert_product_price fails clock conn pid cost ts_opt =
     (let ts = (case ts_opt of None \<Rightarrow> clock (statements conn) | Some t \<Rightarrow> t)
      in then_do (query fails conn) (\<lambda>c1.
           case find (at_key pid ts) (product_price_table (pending c1)) of
             Some existing \<Rightarrow>
               then_do (dec_ne (cost_per_unit existing) cost) (\<lambda>differs.
                 if differs
                 then then_do
                        (execute fails c1
                           (\<lambda>t. t\<lparr>product_price_table := set_cost pid ts cost (product_price_table t)\<rparr>))
                        (\<lambda>c2. Inr (True, c2))
                 else Inr (False, c1))
           | None \<Rightarrow>
               then_do
                 (execute fails c1
                    (\<lambda>t. t\<lparr>product_price_table :=
                              product_price_table t
                                @ [\<lparr>product_id = pid, cost_per_unit = cost, created_when = ts\<rparr>]\<rparr>))
                 (\<lambda>c2. Inr (True, c2))))"

fun latest :: "price_rec list \<Rightarrow> price_rec option" where
  \<comment> \<open>\<open>ORDER BY created_when DESC LIMIT 1\<close>; among equal timestamps the first row\<close>
  "latest [] = None"
| "latest (r # rs) =
     (case latest rs of
        None \<Rightarrow> Some r
      | Some m \<Rightarrow> if created_when r < created_when m then Some m else Some r)"

definition latest_price :: "int \<Rightarrow> price_rec list \<Rightarrow> decimal option" where
  "latest_price pid rows = map_option cost_per_unit (latest (filter (\<lambda>r. product_id r = pid) rows))"

definition get_latest_product_price ::
  "(nat \<Rightarrow> bool) \<Rightarrow> connection \<Rightarrow> int \<Rightarrow> exn + decimal option \<times> connection"
where
  "get_latest_product_price fails conn pid =
     then_do (query fails conn) (\<lambda>c.
       Inr (latest_price pid (product_price_table (pending c)), c))"

record import_state =
  conn :: connection
  products_updated :: nat
  prices_updated :: nat
  prices_inserted :: nat
  out :: "event list"

definition price_differs :: "decimal option \<Rightarrow> decimal \<Rightarrow> exn + bool" where
  \<comment> \<open>\<open>current_price is None or current_price != new_price\<close>\<close>
  "price_differs current_price new_price =
     (case current_price of
        None \<Rightarrow> Inr True
      | Some cp \<Rightarrow> dec_ne cp new_price)"

definition reconcile_price ::
  "(nat \<Rightarrow> bool) \<Rightarrow> (nat \<Rightarrow> timestamp) \<Rightarrow> timestamp option \<Rightarrow> int \<Rightarrow> decimal
     \<Rightarrow> import_state \<Rightarrow> exn + import_state"
where
  \<comment> \<open>the body of \<open>if update_prices and ... is not None\<close> in \<open>import_product_csv\<close>\<close>
  "reconcile_price fails clock price_timestamp pid new_price st =
     then_do (get_latest_product_price fails (conn st) pid) (\<lambda>(current_price, c1).
     then_do (price_differs current_price new_price) (\<lambda>changed.
       if changed
       then then_do (insert_product_price fails clock c1 pid new_price price_timestamp)
              (\<lambda>(price_updated, c2).
                 if price_updated
                 then (case current_price of
                         None \<Rightarrow>
                           Inr (st\<lparr>conn := c2, prices_inserted := prices_inserted st + 1,
                                   out := out st @ [New_price pid new_price]\<rparr>)
                       | Some cp \<Rightarrow>
                           Inr (st\<lparr>conn := c2, prices_updated := prices_updated st + 1,
                                   out := out st @ [Price_updated pid cp new_price]\<rparr>))
                 else Inr (st\<lparr>conn := c2\<rparr>))
       else Inr (st\<lparr>conn := c1, out := out st @ [Price_unchanged pid new_price]\<rparr>)))"

definition import_product ::
  "(nat \<Rightarrow> bool) \<Rightarrow> (nat \<Rightarrow> timestamp) \<Rightarrow> bool \<Rightarrow> timestamp option \<Rightarrow> product_row
     \<Rightarrow> import_state \<Rightarrow> exn + import_state"
where
  \<comment> \<open>the body of \<open>for product in products\<close>\<close>
  "import_product fails clock update_prices price_timestamp product st =
     then_do (upsert_product fails (conn st) product) (\<lambda>c.
       let st1 = st\<lparr>conn := c, products_updated := products_updated st + 1\<rparr>
       in case row_cost_per_unit product of
            Some new_price \<Rightarrow>
              if update_prices
              then reconcile_price fails clock price_timestamp (row_product_id product) new_price st1
              else Inr st1
          | None \<Rightarrow> Inr st1)"

text \<open>
  The result of a run: what the call returns or raises, the connection as the run
  leaves it (\<open>None\<close> when none was opened) and the lines printed, in order.
\<close>

record run =
  result :: "exn + unit"
  final_conn :: "connection option"
  printed :: "event list"

definition persisted :: "tables \<Rightarrow> run \<Rightarrow> tables" where
  \<comment> \<open>the tables of the store after a run that started from \<open>db\<close>\<close>
  "persisted db r = (case final_conn r of None \<Rightarrow> db | Some c \<Rightarrow> committed c)"

definition released :: "run \<Rightarrow> bool" where
  "released r = (case final_conn r of None \<Rightarrow> True | Some c \<Rightarrow> closed c)"

definition import_failed :: "exn \<Rightarrow> import_state \<Rightarrow> run" where
  \<comment> \<open>leaving \<open>with conn\<close> by an exception rolls back; then the \<open>except\<close> clause
      (rollback, print, re-raise) and the \<open>finally\<close> clause (close)\<close>
  "import_failed e st =
     \<lparr>result = Inl e,
      final_conn = Some (close (rollback (rollback (conn st)))),
      printed = out st @ [Error_during_import e]\<rparr>"

definition import_product_csv ::
  "(nat \<Rightarrow> bool) \<Rightarrow> (nat \<Rightarrow> timestamp) \<Rightarrow> string list list \<Rightarrow> bool \<Rightarrow> timestamp option
     \<Rightarrow> tables \<Rightarrow> run"
where
  "import_product_csv fails clock csv update_prices price_timestamp db =
     (case read_product_csv csv of
        (Inl e, warnings) \<Rightarrow> \<lparr>result = Inl e, final_conn = None, printed = warnings\<rparr>
      | (Inr products, warnings) \<Rightarrow>
          if products = []
          then \<lparr>result = Inr (), final_conn = None, printed = warnings @ [No_valid_product_data]\<rparr>
          else (case for_each (import_product fails clock update_prices price_timestamp) products
                       \<lparr>conn = get_connection db, products_updated = 0, prices_updated = 0,
                        prices_inserted = 0, out = warnings\<rparr> of
                  Inl (e, st) \<Rightarrow> import_failed e st
                | Inr st \<Rightarrow>
                    (case commit fails (conn st) of
                       Inl e \<Rightarrow> import_failed e st
                     | Inr c \<Rightarrow>
                         (let st1 = st\<lparr>conn := c,
                                        out := out st @ [Import_summary (products_updated st)
                                                           (prices_inserted st) (prices_updated st)]\<rparr>
                          in case commit fails c of
                               Inl e \<Rightarrow> import_failed e st1
                             | Inr c' \<Rightarrow>
                                 \<lparr>result = Inr (), final_conn = Some (close c'),
                                  printed = out st1\<rparr>))))"

section \<open>\<open>import_bill\<close>: the bill importer\<close>

record prepared_item =
  prepared_product_name :: "string option"
  prepared_quantity :: decimal
  prepared_unit_price :: decimal
  prepared_line_total :: decimal

definition prepare_item ::
  "(string \<times> string option) list \<Rightarrow> decimal \<times> decimal \<times> prepared_item list
     \<Rightarrow> exn + decimal \<times> decimal \<times> prepared_item list"
where
  \<comment> \<open>the body of \<open>for r in items\<close>; the state is \<open>(subtotal, tax_sum, prepared_items)\<close>\<close>
  "prepare_item r acc =
     (case acc of (subtotal, tax_sum, prepared_items) \<Rightarrow>
        then_do (parse_decimal (dict_get r ''quantity'') dec_zero) (\<lambda>qty.
        then_do (parse_decimal (dict_get r ''product_price'') dec_zero) (\<lambda>price.
        then_do (parse_decimal (dict_get r ''tax_amount'') dec_zero) (\<lambda>tax.
        then_do (parse_decimal (dict_get r ''total'') dec_zero) (\<lambda>line.
        then_do (dec_mul qty price) (\<lambda>amount.
        then_do (dec_add subtotal amount) (\<lambda>subtotal'.
        then_do (dec_add tax_sum tax) (\<lambda>tax_sum'.
          Inr (subtotal', tax_sum',
               prepared_items @ [\<lparr>prepared_product_name = dict_get r ''product_name'',
                                  prepared_quantity = qty,
                                  prepared_unit_price = price,
                                  prepared_line_total = line\<rparr>])))))))))"

definition item_rec :: "nat \<Rightarrow> prepared_item \<Rightarrow> bill_item_rec" where
  "item_rec bid it =
     \<lparr>item_bill_id = bid, item_product_id = None,
      item_product_name = prepared_product_name it,
      quantity = prepared_quantity it, item_unit = None,
      unit_price = prepared_unit_price it, line_total = prepared_line_total it\<rparr>"

definition insert_item :: "(nat \<Rightarrow> bool) \<Rightarrow> nat \<Rightarrow> prepared_item \<Rightarrow> connection \<Rightarrow> exn + connection" where
  "insert_item fails bid it c =
     execute fails c (\<lambda>t. t\<lparr>bill_item_table := bill_item_table t @ [item_rec bid it]\<rparr>)"

definition bill_failed :: "exn \<Rightarrow> connection \<Rightarrow> run" where
  \<comment> \<open>leaving \<open>with conn\<close> by an exception rolls back; the \<open>finally\<close> clause closes\<close>
  "bill_failed e c = \<lparr>result = Inl e, final_conn = Some (close (rollback c)), printed = []\<rparr>"

definition import_bill ::
  "(nat \<Rightarrow> bool) \<Rightarrow> nat \<Rightarrow> string list list \<Rightarrow> string \<Rightarrow> string option \<Rightarrow> string option
     \<Rightarrow> decimal \<Rightarrow> string \<Rightarrow> string option \<Rightarrow> (int \<times> int \<times> int) option \<Rightarrow> string option
     \<Rightarrow> tables \<Rightarrow> run"
where
  \<comment> \<open>\<open>new_id\<close> is the \<open>bill_id\<close> the store generates for the header\<close>
  "import_bill fails new_id csv csv_path vendor notes_text shipping currency_code number date src db =
     (case then_do (read_bill_csv csv) (\<lambda>items.
             case for_each prepare_item items (dec_zero, dec_zero, []) of
               Inl (e, acc) \<Rightarrow> Inl e
             | Inr (subtotal, tax_sum, prepared_items) \<Rightarrow>
                 then_do (dec_add subtotal tax_sum) (\<lambda>x.
                 then_do (dec_add x shipping) (\<lambda>grand.
                   Inr (subtotal, tax_sum, prepared_items, grand)))) of
        Inl e \<Rightarrow> \<lparr>result = Inl e, final_conn = None, printed = []\<rparr>
      | Inr (subtotal, tax_sum, prepared_items, grand) \<Rightarrow>
          (let c0 = get_connection db;
               header = \<lparr>bill_id = new_id, bill_number = number, vendor_name = vendor,
                         bill_source = (case src of None \<Rightarrow> csv_path
                                        | Some s \<Rightarrow> if s = [] then csv_path else s),
                         bill_date = date, currency = currency_code,
                         subtotal_amount = subtotal, tax_amount = tax_sum,
                         shipping_amount = shipping, total_amount = grand,
                         bill_notes = notes_text\<rparr>
           in case execute fails c0 (\<lambda>t. t\<lparr>bill_table := bill_table t @ [header]\<rparr>) of
                Inl e \<Rightarrow> bill_failed e c0
              | Inr c1 \<Rightarrow>
                  (case for_each (insert_item fails new_id) prepared_items c1 of
                     Inl (e, c) \<Rightarrow> bill_failed e c
                   | Inr c2 \<Rightarrow>
                       (case commit fails c2 of
                          Inl e \<Rightarrow> \<lparr>result = Inl e, final_conn = Some (close c2), printed = []\<rparr>
                        | Inr c3 \<Rightarrow>
                            \<lparr>result = Inr (), final_conn = Some (close c3),
                             printed = [Imported_bill (length prepared_items) subtotal tax_sum
                                          shipping grand]\<rparr>))))"

section \<open>Environments and stores used in examples\<close>

definition no_failure :: "nat \<Rightarrow> bool" where
  \<comment> \<open>a run in which no statement fails\<close>
  "no_failure n = False"

definition empty_db :: tables where
  "empty_db = \<lparr>product_table = [], product_price_table = [], bill_table = [], bill_item_table = []\<rparr>"

definition fixed_clock :: "nat \<Rightarrow> timestamp" where
  "fixed_clock n = 0"

definition start :: "price_rec list \<Rightarrow> import_state" where
  \<comment> \<open>the state in which the import loop starts on a store with the given price history\<close>
  "start rows =
     \<lparr>conn = get_connection (empty_db\<lparr>product_price_table := rows\<rparr>),
      products_updated = 0, prices_updated = 0, prices_inserted = 0, out = []\<rparr>"

section \<open>Notions used to state the results\<close>

definition history :: "import_state \<Rightarrow> price_rec list" where
  \<comment> \<open>the price history as the running import sees it\<close>
  "history st = product_price_table (pending (conn st))"

definition sent :: "nat \<Rightarrow> connection \<Rightarrow> connection" where
  \<comment> \<open>the connection after \<open>n\<close> more statements went through\<close>
  "sent n c = c\<lparr>in_transaction := True, statements := statements c + n\<rparr>"

definition with_prices :: "price_rec list \<Rightarrow> connection \<Rightarrow> connection" where
  "with_prices rows c = c\<lparr>pending := (pending c)\<lparr>product_price_table := rows\<rparr>\<rparr>"

definition observation :: "int \<Rightarrow> decimal \<Rightarrow> timestamp \<Rightarrow> price_rec" where
  "observation pid cost ts = \<lparr>product_id = pid, cost_per_unit = cost, created_when = ts\<rparr>"

definition price_changed ::
  "timestamp \<Rightarrow> int \<Rightarrow> decimal \<Rightarrow> decimal option \<Rightarrow> import_state \<Rightarrow> exn + import_state"
where
  \<comment> \<open>the effect of the reconciliation once the latest price is absent or differs,
      when no statement fails\<close>
  "price_changed ts pid cost current st =
     (let counted = (case current of
                       None \<Rightarrow> st\<lparr>prices_inserted := prices_inserted st + 1,
                                    out := out st @ [New_price pid cost]\<rparr>
                     | Some cp \<Rightarrow> st\<lparr>prices_updated := prices_updated st + 1,
                                      out := out st @ [Price_updated pid cp cost]\<rparr>)
      in case find (at_key pid ts) (history st) of
           None \<Rightarrow>
             Inr (counted\<lparr>conn := with_prices (history st @ [observation pid cost ts])
                                      (sent 3 (conn st))\<rparr>)
         | Some existing \<Rightarrow>
             (case dec_ne (cost_per_unit existing) cost of
                Inl e \<Rightarrow> Inl e
              | Inr differs \<Rightarrow>
                  if differs
                  then Inr (counted\<lparr>conn := with_prices (set_cost pid ts cost (history st))
                                               (sent 3 (conn st))\<rparr>)
                  else Inr (st\<lparr>conn := sent 2 (conn st)\<rparr>)))"

definition upserted :: "product_row \<Rightarrow> import_state \<Rightarrow> import_state" where
  \<comment> \<open>the import state once the upsert of a product went through\<close>
  "upserted p st =
     st\<lparr>conn := (sent 1 (conn st))
                   \<lparr>pending := (pending (conn st))
                      \<lparr>product_table :=
                         AList.update (row_product_id p)
                           \<lparr>product_name = row_product_name p, source = row_source p,
                            unit = row_unit p\<rparr>
                           (product_table (pending (conn st)))\<rparr>\<rparr>,
        products_updated := products_updated st + 1\<rparr>"

definition product_header :: "string list" where
  "product_header = [''product_id'', ''product_name'', ''cost_per_unit'']"

definition priced_row :: "int \<Rightarrow> decimal option \<Rightarrow> product_row" where
  "priced_row pid cost =
     \<lparr>row_product_id = pid, row_product_name = Some ''Salt'', row_source = None,
      row_unit = None, row_cost_per_unit = cost\<rparr>"





definition amount :: "(string \<times> string option) list \<Rightarrow> string \<Rightarrow> decimal" where
  \<comment> \<open>the normalized numeric cell of a bill row, zero when missing or malformed\<close>
  "amount r k = (case parse_decimal (dict_get r k) dec_zero of Inr d \<Rightarrow> d | Inl e \<Rightarrow> dec_zero)"

definition dec_sum :: "(exn + decimal) list \<Rightarrow> exn + decimal" where
  \<comment> \<open>the sum of the terms, added from \<open>Decimal("0")\<close> in the order of the list\<close>
  "dec_sum xs = foldl (\<lambda>acc x. then_do acc (\<lambda>a. then_do x (\<lambda>v. dec_add a v))) (Inr dec_zero) xs"

definition bill_csv :: "string list list" where
  "bill_csv =
     [[''product_name'', ''quantity'', ''product_price'', ''tax_amount'', ''total''],
      [''Flour'', ''2'', ''10.00'', ''1.00'', ''20.00''],
      [''Yeast'', ''1'', ''5.00'', ''0.50'', ''4.75'']]"

definition sum_from :: "decimal \<Rightarrow> (exn + decimal) list \<Rightarrow> exn + decimal" where
  \<comment> \<open>the sum of the terms added to a running total\<close>
  "sum_from s xs = foldl (\<lambda>acc x. then_do acc (\<lambda>a. then_do x (\<lambda>v. dec_add a v))) (Inr s) xs"

definition fails_at :: "nat \<Rightarrow> nat \<Rightarrow> bool" where
  \<comment> \<open>a run in which the statement with the given number fails\<close>
  "fails_at k n = (n = k)"

definition three_item_bill :: "string list list" where
  "three_item_bill =
     [[''product_name'', ''quantity'', ''product_price'', ''tax_amount'', ''total''],
      [''Flour'', ''2'', ''10.00'', ''1.00'', ''20.00''],
      [''Yeast'', ''1'', ''5.00'', ''0.50'', ''5.00''],
      [''Salt'', ''3'', ''1.00'', ''0.10'', ''3.00'']]"

definition one_product :: "string list list" where
  "one_product = [product_header, [''1'', ''Salt'', ''1.5'']]"

section \<open>The normalizer\<close>

lemmas decimal_eval =
  Decimal_def numeral_of_def mk_finite_def signed_digits_def digits_val_def digit_val_def
  is_digit_def ascii_lower_def py_strip_def py_isspace_def ndigits.simps

lemma Decimal_raises: "Decimal s = Inl e \<Longrightarrow> e = InvalidOperation"
  by (auto simp: Decimal_def Let_def split: if_splits option.splits prod.splits)

lemma Decimal_empty: "Decimal [] = Inl InvalidOperation"
  by (simp add: decimal_eval)

text \<open>
  Claim C6. For every text (or \<open>None\<close>) and default, \<open>parse_decimal\<close> returns a
  value and raises nothing: the default for \<open>None\<close>, and otherwise the number read from
  the text stripped of surrounding whitespace and of commas, or the default when that
  text is empty or not a number. In particular \<open>"1,234.50"\<close> gives \<open>1234.50\<close>, and
  \<open>""\<close>, \<open>None\<close> and \<open>"abc"\<close> give the default.
\<close>

theorem parse_decimal_normalizes:
  "parse_decimal v dflt =
     Inr (case v of
            None \<Rightarrow> dflt
          | Some s \<Rightarrow> (case Decimal (filter (\<lambda>c. c \<noteq> CHR '','') (py_strip s)) of
                         Inr d \<Rightarrow> d
                       | Inl e \<Rightarrow> dflt))
   \<and> parse_decimal (Some ''1,234.50'') dflt = Inr (Finite False 123450 (- 2))
   \<and> parse_decimal (Some '''') dflt = Inr dflt
   \<and> parse_decimal None dflt = Inr dflt
   \<and> parse_decimal (Some ''abc'') dflt = Inr dflt"
proof -
  have general: "parse_decimal v dflt =
     Inr (case v of
            None \<Rightarrow> dflt
          | Some s \<Rightarrow> (case Decimal (filter (\<lambda>c. c \<noteq> CHR '','') (py_strip s)) of
                         Inr d \<Rightarrow> d
                       | Inl e \<Rightarrow> dflt))"
  proof (cases v)
    case None
    then show ?thesis by (simp add: parse_decimal_def)
  next
    case (Some s)
    show ?thesis
    proof (cases "Decimal (filter (\<lambda>c. c \<noteq> CHR '','') (py_strip s))")
      case (Inl e)
      then have "e = InvalidOperation" by (rule Decimal_raises)
      with Inl Some show ?thesis
        by (simp add: parse_decimal_def Let_def py_strip_def)
    next
      case (Inr d)
      then have "filter (\<lambda>c. c \<noteq> CHR '','') (py_strip s) \<noteq> []"
        using Decimal_empty by auto
      with Inr Some show ?thesis
        by (auto simp: parse_decimal_def Let_def py_strip_def)
    qed
  qed
  have e1: "parse_decimal (Some ''1,234.50'') dflt = Inr (Finite False 123450 (- 2))"
    by (simp add: parse_decimal_def decimal_eval)
  have e2: "parse_decimal (Some '''') dflt = Inr dflt"
    by (simp add: parse_decimal_def)
  have e3: "parse_decimal None dflt = Inr dflt"
    by (simp add: parse_decimal_def)
  have e4: "parse_decimal (Some ''abc'') dflt = Inr dflt"
    by (simp add: parse_decimal_def decimal_eval)
  from general e1 e2 e3 e4 show ?thesis by blast
qed

section \<open>Missing columns\<close>

lemma missing_columns_set:
  "set (missing_columns required fieldnames) = set required - py_strip ` set fieldnames"
  by (auto simp: missing_columns_def)

lemma missing_columns_sorted:
  "sorted (missing_columns required fieldnames) \<and> distinct (missing_columns required fieldnames)"
  by (simp add: missing_columns_def)

text \<open>
  Claim C7. When the header row of the CSV lacks required columns, either importer
  stops with a \<open>ValueError\<close> before it reads a row or opens a connection: nothing is
  printed, no statement is sent, and the message lists the missing column names, which
  are exactly the required names absent from the stripped header, in sorted order.
\<close>

theorem missing_columns_abort:
  assumes "fieldnames \<noteq> []"
  shows "(missing_columns product_required_cols fieldnames \<noteq> [] \<longrightarrow>
           import_product_csv fails clock (fieldnames # body) update_prices price_timestamp db =
             \<lparr>result = Inl (ValueError (''CSV missing required columns: ''
                              @ join '', '' (missing_columns product_required_cols fieldnames))),
              final_conn = None, printed = []\<rparr>)
       \<and> (missing_columns bill_required_cols fieldnames \<noteq> [] \<longrightarrow>
           import_bill fails new_id (fieldnames # body) csv_path vendor notes_text shipping
               currency_code number date src db =
             \<lparr>result = Inl (ValueError (''CSV missing required columns: ''
                              @ join '', '' (missing_columns bill_required_cols fieldnames))),
              final_conn = None, printed = []\<rparr>)
       \<and> set (missing_columns required fieldnames) = set required - py_strip ` set fieldnames
       \<and> sorted (missing_columns required fieldnames)
       \<and> distinct (missing_columns required fieldnames)"
  using assms
  by (simp add: import_product_csv_def read_product_csv_def import_bill_def read_bill_csv_def
      missing_message_def missing_columns_set missing_columns_sorted)

theorem missing_columns_abort_witness:
  "[''product_name'', '' unit ''] \<noteq> []
   \<and> import_product_csv no_failure (\<lambda>n. 0) [[''product_name'', '' unit ''], [''a'', ''kg'']] True None empty_db =
       \<lparr>result = Inl (ValueError ''CSV missing required columns: product_id''),
        final_conn = None, printed = []\<rparr>
   \<and> import_bill no_failure 1 [[''product_name'', '' unit ''], [''a'', ''kg'']] ''bill.csv'' None None
        dec_zero ''USD'' None None None empty_db =
       \<lparr>result = Inl (ValueError ''CSV missing required columns: product_price, quantity, tax_amount, total''),
        final_conn = None, printed = []\<rparr>"
  using missing_columns_abort [of "[''product_name'', '' unit '']" no_failure "\<lambda>n. 0" "[[''a'', ''kg'']]"
      True None empty_db 1 "''bill.csv''" None None dec_zero "''USD''" None None None]
  by (simp add: missing_columns_def product_required_cols_def bill_required_cols_def
      py_strip_def py_isspace_def)

section \<open>Price reconciliation\<close>

lemma query_ok: "query no_failure c = Inr (sent 1 c)"
  by (simp add: query_def no_failure_def sent_def)

lemma execute_ok:
  "execute no_failure c f = Inr ((sent 1 c)\<lparr>pending := f (pending c)\<rparr>)"
  by (simp add: execute_def no_failure_def sent_def)

lemma sent_sent: "sent m (sent n c) = sent (n + m) c"
  by (simp add: sent_def add.assoc)

lemma pending_sent: "pending (sent n c) = pending c"
  by (simp add: sent_def)

lemma history_simps:
  "history (st\<lparr>conn := with_prices rows c\<rparr>) = rows"
  "history (st\<lparr>conn := sent n (conn st)\<rparr>) = history st"
  "history (st\<lparr>out := x\<rparr>) = history st"
  "history (st\<lparr>prices_inserted := i\<rparr>) = history st"
  "history (st\<lparr>prices_updated := u\<rparr>) = history st"
  "history (st\<lparr>products_updated := k\<rparr>) = history st"
  by (simp_all add: history_def with_prices_def sent_def)

lemma insert_product_price_ok:
  "insert_product_price no_failure clock c pid cost (Some ts) =
     (case find (at_key pid ts) (product_price_table (pending c)) of
        None \<Rightarrow>
          Inr (True, with_prices (product_price_table (pending c) @ [observation pid cost ts])
                       (sent 2 c))
      | Some existing \<Rightarrow>
          (case dec_ne (cost_per_unit existing) cost of
             Inl e \<Rightarrow> Inl e
           | Inr differs \<Rightarrow>
               if differs
               then Inr (True, with_prices (set_cost pid ts cost (product_price_table (pending c)))
                                 (sent 2 c))
               else Inr (False, sent 1 c)))"
  by (simp add: insert_product_price_def query_ok execute_ok sent_sent pending_sent
      with_prices_def observation_def split: option.splits sum.splits)
     (simp add: sent_def)

lemma reconcile_price_ok:
  "reconcile_price no_failure clock (Some ts) pid cost st =
     (case price_differs (latest_price pid (history st)) cost of
        Inl e \<Rightarrow> Inl e
      | Inr differs \<Rightarrow>
          if differs then price_changed ts pid cost (latest_price pid (history st)) st
          else Inr (st\<lparr>conn := sent 1 (conn st),
                        out := out st @ [Price_unchanged pid cost]\<rparr>))"
  by (simp add: reconcile_price_def get_latest_product_price_def query_ok
      insert_product_price_ok pending_sent sent_sent price_changed_def history_def Let_def
      numeral_2_eq_2 numeral_3_eq_3
      split: option.splits sum.splits)

lemmas example_eval =
  start_def get_connection_def empty_db_def history_def latest_price_def at_key_def
  observation_def price_differs_def dec_ne_def signed_def sent_def with_prices_def
  price_changed_def set_cost_def

text \<open>
  Claim C1 does not hold as stated. Product 1 has one observation, cost 5 at time 1.
  Reconciling cost 5 at time 2, where no observation of the product exists, inserts
  nothing: the latest cost equals the observed cost, so the price is reported unchanged
  and the history stays as it was.
\<close>

theorem latest_price_gates_insert:
  "find (at_key 1 2) (history (start [observation 1 (Finite False 5 0) 1])) = None
   \<and> reconcile_price no_failure fixed_clock (Some 2) 1 (Finite False 5 0)
         (start [observation 1 (Finite False 5 0) 1])
       = Inr ((start [observation 1 (Finite False 5 0) 1])
                \<lparr>conn := sent 1 (conn (start [observation 1 (Finite False 5 0) 1])),
                 out := [Price_unchanged 1 (Finite False 5 0)]\<rparr>)
   \<and> history ((start [observation 1 (Finite False 5 0) 1])
                \<lparr>conn := sent 1 (conn (start [observation 1 (Finite False 5 0) 1])),
                 out := [Price_unchanged 1 (Finite False 5 0)]\<rparr>)
       = [observation 1 (Finite False 5 0) 1]"
  by (simp add: reconcile_price_ok example_eval)

text \<open>
  Claim C1, amended. When no observation exists at the product identifier and timestamp
  and no statement fails, the outcome depends on the lookup of the latest price: if the
  product has no observation, or its latest cost differs from the observed cost, one
  observation is appended to the history, counted and reported as a new price in the
  first case and as an updated price in the second; if the latest cost equals the
  observed cost, the history is unchanged and the price is reported unchanged.
\<close>

theorem reconcile_without_match:
  assumes "find (at_key pid ts) (history st) = None"
      and "price_differs (latest_price pid (history st)) cost = Inr differs"
  shows "\<exists>st'. reconcile_price no_failure clock (Some ts) pid cost st = Inr st'
           \<and> history st' = (if differs then history st @ [observation pid cost ts]
                              else history st)
           \<and> prices_inserted st' =
               (if differs \<and> latest_price pid (history st) = None
                then prices_inserted st + 1 else prices_inserted st)
           \<and> prices_updated st' =
               (if differs \<and> latest_price pid (history st) \<noteq> None
                then prices_updated st + 1 else prices_updated st)
           \<and> out st' = out st @
               [if differs
                then (case latest_price pid (history st) of
                        None \<Rightarrow> New_price pid cost
                      | Some cp \<Rightarrow> Price_updated pid cp cost)
                else Price_unchanged pid cost]"
  using assms
  by (auto simp: reconcile_price_ok price_changed_def history_simps Let_def
      split: option.splits)

theorem reconcile_without_match_witness:
  "find (at_key 1 2) (history (start [observation 1 (Finite False 5 0) 1])) = None
   \<and> price_differs (latest_price 1 (history (start [observation 1 (Finite False 5 0) 1])))
        (Finite False 7 0) = Inr True
   \<and> (\<exists>st'. reconcile_price no_failure fixed_clock (Some 2) 1 (Finite False 7 0)
               (start [observation 1 (Finite False 5 0) 1]) = Inr st'
           \<and> history st' = [observation 1 (Finite False 5 0) 1, observation 1 (Finite False 7 0) 2]
           \<and> prices_inserted st' = 0
           \<and> prices_updated st' = 1
           \<and> out st' = [Price_updated 1 (Finite False 5 0) (Finite False 7 0)])"
proof -
  have h1: "find (at_key 1 2) (history (start [observation 1 (Finite False 5 0) 1])) = None"
    by (simp add: example_eval)
  have h2: "price_differs (latest_price 1 (history (start [observation 1 (Finite False 5 0) 1])))
        (Finite False 7 0) = Inr True"
    by (simp add: example_eval)
  have h3: "latest_price 1 (history (start [observation 1 (Finite False 5 0) 1])) = Some (Finite False 5 0)"
    by (simp add: example_eval)
  have h4: "history (start [observation 1 (Finite False 5 0) 1]) = [observation 1 (Finite False 5 0) 1]"
    by (simp add: example_eval)
  have h5: "prices_inserted (start [observation 1 (Finite False 5 0) 1]) = 0
     \<and> prices_updated (start [observation 1 (Finite False 5 0) 1]) = 0
     \<and> out (start [observation 1 (Finite False 5 0) 1]) = []"
    by (simp add: start_def)
  from reconcile_without_match [OF h1 h2, of fixed_clock] h1 h2 h3 h4 h5
  show ?thesis by simp
qed


lemma find_snoc:
  "find P (xs @ [x]) = (case find P xs of None \<Rightarrow> (if P x then Some x else None) | Some y \<Rightarrow> Some y)"
  by (induction xs) auto

lemma at_key_set_cost [simp]: "at_key pid ts (r\<lparr>cost_per_unit := c\<rparr>) = at_key pid ts r"
  by (simp add: at_key_def)

lemma find_set_cost:
  "find (at_key pid ts) (set_cost pid ts cost rows) =
     map_option (\<lambda>r. r\<lparr>cost_per_unit := cost\<rparr>) (find (at_key pid ts) rows)"
  by (induction rows) (auto simp: set_cost_def)

lemma length_set_cost: "length (set_cost pid ts cost rows) = length rows"
  by (simp add: set_cost_def)

lemma set_cost_others:
  "filter (\<lambda>r. \<not> at_key pid ts r) (set_cost pid ts cost rows) =
     filter (\<lambda>r. \<not> at_key pid ts r) rows"
  by (induction rows) (auto simp: set_cost_def)











text \<open>
  Claim C2 does not hold as stated. Product 1 has cost 5 at time 1 and cost 7 at time 2.
  Reconciling cost 7 at time 1 meets an observation with the different cost 5 at that
  timestamp, but the latest cost is 7 already: the price is reported unchanged and the
  observation at time 1 keeps cost 5.
\<close>

theorem latest_price_gates_correction:
  "find (at_key 1 1) (history (start [observation 1 (Finite False 5 0) 1,
                                      observation 1 (Finite False 7 0) 2]))
     = Some (observation 1 (Finite False 5 0) 1)
   \<and> dec_ne (Finite False 5 0) (Finite False 7 0) = Inr True
   \<and> reconcile_price no_failure fixed_clock (Some 1) 1 (Finite False 7 0)
         (start [observation 1 (Finite False 5 0) 1, observation 1 (Finite False 7 0) 2])
       = Inr ((start [observation 1 (Finite False 5 0) 1, observation 1 (Finite False 7 0) 2])
                \<lparr>conn := sent 1 (conn (start [observation 1 (Finite False 5 0) 1,
                                               observation 1 (Finite False 7 0) 2])),
                 out := [Price_unchanged 1 (Finite False 7 0)]\<rparr>)
   \<and> history ((start [observation 1 (Finite False 5 0) 1, observation 1 (Finite False 7 0) 2])
                \<lparr>conn := sent 1 (conn (start [observation 1 (Finite False 5 0) 1,
                                               observation 1 (Finite False 7 0) 2])),
                 out := [Price_unchanged 1 (Finite False 7 0)]\<rparr>)
       = [observation 1 (Finite False 5 0) 1, observation 1 (Finite False 7 0) 2]"
  by (simp add: reconcile_price_ok example_eval)

text \<open>
  Claim C2, amended. When an observation exists at the product identifier and timestamp
  with a cost different from the observed one, the latest cost of the product differs
  from the observed cost as well, and no statement fails, then the cost at that key is
  overwritten, every other observation is untouched, the number of observations is
  unchanged, and the change is counted and reported as an updated price.
\<close>

theorem reconcile_corrects_in_place:
  assumes "find (at_key pid ts) (history st) = Some existing"
      and "dec_ne (cost_per_unit existing) cost = Inr True"
      and "latest_price pid (history st) = Some cp"
      and "dec_ne cp cost = Inr True"
  shows "\<exists>st'. reconcile_price no_failure clock (Some ts) pid cost st = Inr st'
           \<and> history st' = set_cost pid ts cost (history st)
           \<and> find (at_key pid ts) (history st') = Some (existing\<lparr>cost_per_unit := cost\<rparr>)
           \<and> filter (\<lambda>r. \<not> at_key pid ts r) (history st')
               = filter (\<lambda>r. \<not> at_key pid ts r) (history st)
           \<and> length (history st') = length (history st)
           \<and> prices_updated st' = prices_updated st + 1
           \<and> prices_inserted st' = prices_inserted st
           \<and> out st' = out st @ [Price_updated pid cp cost]"
  using assms
  by (simp add: reconcile_price_ok price_differs_def price_changed_def history_simps Let_def
      find_set_cost set_cost_others length_set_cost)

theorem reconcile_corrects_in_place_witness:
  "find (at_key 1 2) (history (start [observation 1 (Finite False 5 0) 1,
                                      observation 1 (Finite False 7 0) 2]))
     = Some (observation 1 (Finite False 7 0) 2)
   \<and> dec_ne (Finite False 7 0) (Finite False 9 0) = Inr True
   \<and> latest_price 1 (history (start [observation 1 (Finite False 5 0) 1,
                                      observation 1 (Finite False 7 0) 2]))
     = Some (Finite False 7 0)
   \<and> (\<exists>st'. reconcile_price no_failure fixed_clock (Some 2) 1 (Finite False 9 0)
               (start [observation 1 (Finite False 5 0) 1, observation 1 (Finite False 7 0) 2])
             = Inr st'
           \<and> history st' = [observation 1 (Finite False 5 0) 1, observation 1 (Finite False 9 0) 2]
           \<and> length (history st') = 2
           \<and> prices_updated st' = 1
           \<and> prices_inserted st' = 0
           \<and> out st' = [Price_updated 1 (Finite False 7 0) (Finite False 9 0)])"
proof -
  let ?st = "start [observation 1 (Finite False 5 0) 1, observation 1 (Finite False 7 0) 2]"
  have h1: "find (at_key 1 2) (history ?st) = Some (observation 1 (Finite False 7 0) 2)"
    by (simp add: example_eval)
  have h2: "dec_ne (cost_per_unit (observation 1 (Finite False 7 0) 2)) (Finite False 9 0) = Inr True"
    by (simp add: example_eval)
  have h3: "latest_price 1 (history ?st) = Some (Finite False 7 0)"
    by (simp add: example_eval)
  have h4: "dec_ne (Finite False 7 0) (Finite False 9 0) = Inr True"
    by (simp add: example_eval)
  have h5: "history ?st = [observation 1 (Finite False 5 0) 1, observation 1 (Finite False 7 0) 2]
     \<and> prices_updated ?st = 0 \<and> prices_inserted ?st = 0 \<and> out ?st = []"
    by (simp add: example_eval)
  from reconcile_corrects_in_place [OF h1 h2 h3 h4, of fixed_clock] h1 h3 h4 h5
  show ?thesis
    by (auto simp: set_cost_def at_key_def observation_def)
qed

text \<open>
  The latest cost is the cost of the matching observation whenever the product has no
  later observation.
\<close>

lemma latest_in_set: "latest xs = Some m \<Longrightarrow> m \<in> set xs"
  by (induction xs arbitrary: m) (auto split: option.splits if_splits)

lemma latest_when_most_recent:
  assumes "find (at_key pid ts) rows = Some existing"
      and "\<forall>r \<in> set rows. product_id r = pid \<longrightarrow> created_when r \<le> ts"
  shows "latest_price pid rows = Some (cost_per_unit existing)"
proof -
  have "latest (filter (\<lambda>r. product_id r = pid) rows) = Some existing"
    using assms
  proof (induction rows)
    case Nil
    then show ?case by simp
  next
    case (Cons r rows)
    show ?case
    proof (cases "at_key pid ts r")
      case True
      with Cons.prems have "existing = r" by simp
      moreover have "\<And>m. latest (filter (\<lambda>r. product_id r = pid) rows) = Some m
                       \<Longrightarrow> created_when m \<le> ts"
        using Cons.prems(2) latest_in_set by fastforce
      ultimately show ?thesis
        using True by (auto simp: at_key_def split: option.splits)
    next
      case False
      with Cons.prems have f: "find (at_key pid ts) rows = Some existing" by simp
      with Cons have IH: "latest (filter (\<lambda>r. product_id r = pid) rows) = Some existing" by simp
      from f have "at_key pid ts existing"
        by (auto simp: find_Some_iff)
      with False Cons.prems(2) IH show ?thesis
        by (auto simp: at_key_def)
    qed
  qed
  then show ?thesis by (simp add: latest_price_def)
qed

section \<open>Rows with a blank or malformed cost\<close>

lemma import_product_ok:
  "import_product no_failure clock update_prices price_timestamp p st =
     (case row_cost_per_unit p of
        None \<Rightarrow> Inr (upserted p st)
      | Some new_price \<Rightarrow>
          if update_prices
          then reconcile_price no_failure clock price_timestamp (row_product_id p) new_price
                 (upserted p st)
          else Inr (upserted p st))"
  by (simp add: import_product_def upsert_product_def execute_ok upserted_def Let_def
      split: option.splits)

lemma upserted_simps:
  "history (upserted p st) = history st"
  "prices_inserted (upserted p st) = prices_inserted st"
  "prices_updated (upserted p st) = prices_updated st"
  "products_updated (upserted p st) = products_updated st + 1"
  "out (upserted p st) = out st"
  "statements (conn (upserted p st)) = statements (conn st) + 1"
  "product_table (pending (conn (upserted p st))) =
     AList.update (row_product_id p)
       \<lparr>product_name = row_product_name p, source = row_source p, unit = row_unit p\<rparr>
       (product_table (pending (conn st)))"
  by (simp_all add: upserted_def history_def sent_def)

lemma clean_cell_None:
  "(clean_cell v = None) = (case v of None \<Rightarrow> True | Some s \<Rightarrow> py_strip s = [])"
  by (simp add: clean_cell_def split: option.splits)

lemmas row_eval =
  dict_row_of_def clean_row_def clean_cell_def product_id_of_def py_int_def parse_cost_def
  dict_get_def py_strip_def py_isspace_def is_digit_def digits_val_def digit_val_def
  product_header_def

text \<open>
  Claim C9. A product row whose cost cell is blank or absent (the cleaned cell is
  \<open>None\<close>, or the column is missing) is returned by the reader without a cost, and
  the importer makes no reconciliation call for it: when the upsert goes through, the
  product is upserted with exactly one statement sent, the price history is unchanged
  and no price is counted or reported.
\<close>

theorem blank_cost_skips_reconciliation:
  assumes "clean_row r = Inr row_data"
      and "product_id_of row_data = Inr pid"
      and "dict_get row_data ''cost_per_unit'' = None"
  shows "\<exists>p st'. read_rows [r] [] [] = (Inr [p], [])
           \<and> row_product_id p = pid
           \<and> row_cost_per_unit p = None
           \<and> import_product no_failure clock update_prices price_timestamp p st = Inr st'
           \<and> history st' = history st
           \<and> statements (conn st') = statements (conn st) + 1
           \<and> product_table (pending (conn st')) =
               AList.update pid
                 \<lparr>product_name = dict_get row_data ''product_name'',
                  source = dict_get row_data ''source'',
                  unit = dict_get row_data ''unit''\<rparr>
                 (product_table (pending (conn st)))
           \<and> products_updated st' = products_updated st + 1
           \<and> prices_inserted st' = prices_inserted st
           \<and> prices_updated st' = prices_updated st
           \<and> out st' = out st"
  using assms
  by (simp add: parse_cost_def import_product_ok upserted_simps)

theorem blank_cost_skips_reconciliation_witness:
  "clean_row (dict_row_of product_header [''7'', ''Salt'', ''  ''])
     = Inr [(''product_id'', Some ''7''), (''product_name'', Some ''Salt''), (''cost_per_unit'', None)]
   \<and> product_id_of [(''product_id'', Some ''7''), (''product_name'', Some ''Salt''),
                      (''cost_per_unit'', None)] = Inr 7
   \<and> dict_get [(''product_id'', Some ''7''), (''product_name'', Some ''Salt''),
                 (''cost_per_unit'', None)] ''cost_per_unit'' = None
   \<and> (\<exists>p st'. read_rows [dict_row_of product_header [''7'', ''Salt'', ''  '']] [] [] = (Inr [p], [])
           \<and> row_product_id p = 7
           \<and> row_cost_per_unit p = None
           \<and> import_product no_failure fixed_clock True None p
                (start [observation 7 (Finite False 5 0) 1]) = Inr st'
           \<and> history st' = [observation 7 (Finite False 5 0) 1]
           \<and> statements (conn st') = 1
           \<and> product_table (pending (conn st')) =
               [(7, \<lparr>product_name = Some ''Salt'', source = None, unit = None\<rparr>)]
           \<and> prices_inserted st' = 0
           \<and> prices_updated st' = 0
           \<and> out st' = [])"
proof -
  let ?r = "dict_row_of product_header [''7'', ''Salt'', ''  '']"
  let ?d = "[(''product_id'', Some ''7''), (''product_name'', Some ''Salt''), (''cost_per_unit'', None)]"
  let ?st = "start [observation 7 (Finite False 5 0) 1]"
  have h1: "clean_row ?r = Inr ?d" by (simp add: row_eval)
  have h2: "product_id_of ?d = Inr 7" by (simp add: row_eval)
  have h3: "dict_get ?d ''cost_per_unit'' = None" by (simp add: row_eval)
  have h4: "dict_get ?d ''product_name'' = Some ''Salt'' \<and> dict_get ?d ''source'' = None
            \<and> dict_get ?d ''unit'' = None" by (simp add: row_eval)
  have h5: "history ?st = [observation 7 (Finite False 5 0) 1] \<and> statements (conn ?st) = 0
            \<and> product_table (pending (conn ?st)) = [] \<and> prices_inserted ?st = 0
            \<and> prices_updated ?st = 0 \<and> out ?st = []"
    by (simp add: start_def get_connection_def empty_db_def history_def)
  from blank_cost_skips_reconciliation [OF h1 h2 h3, of fixed_clock True None ?st] h1 h2 h3 h4 h5
  show ?thesis by auto
qed


lemma dec_ne_False: "dec_ne a b = Inr False \<Longrightarrow> dec_eq a b = Inr True"
  by (cases "dec_eq a b") (auto simp: dec_ne_def)

lemma malformed_cost_is_zero:
  assumes "text \<noteq> []"
      and "Decimal (filter (\<lambda>c. c \<noteq> CHR '','') (py_strip text)) = Inl InvalidOperation"
  shows "parse_decimal (Some text) dec_zero = Inr dec_zero"
  using assms by (simp add: parse_decimal_def Let_def)

lemma priced_row_simps:
  "row_product_id (priced_row pid cost) = pid"
  "row_cost_per_unit (priced_row pid cost) = cost"
  by (simp_all add: priced_row_def)

lemma observation_simps:
  "product_id (observation pid cost ts) = pid"
  "cost_per_unit (observation pid cost ts) = cost"
  "created_when (observation pid cost ts) = ts"
  by (simp_all add: observation_def)

text \<open>
  Claim C10 does not hold as stated. Product 1 has cost 0 at time 1 and cost 5 at time 2.
  A row with the malformed cost \<open>abc\<close> imported at time 1 is read with cost 0; the
  latest price is 5, not 0, yet nothing is inserted or corrected: the observation at
  time 1 has cost 0 already, and the history and both counters stay as they were.
\<close>

theorem zero_cost_already_recorded:
  "read_rows [dict_row_of product_header [''1'', ''Salt'', ''abc'']] [] []
     = (Inr [priced_row 1 (Some dec_zero)], [])
   \<and> latest_price 1 (history (start [observation 1 dec_zero 1, observation 1 (Finite False 5 0) 2]))
     = Some (Finite False 5 0)
   \<and> dec_ne (Finite False 5 0) dec_zero = Inr True
   \<and> import_product no_failure fixed_clock True (Some 1) (priced_row 1 (Some dec_zero))
       (start [observation 1 dec_zero 1, observation 1 (Finite False 5 0) 2])
     = Inr ((upserted (priced_row 1 (Some dec_zero))
               (start [observation 1 dec_zero 1, observation 1 (Finite False 5 0) 2]))
            \<lparr>conn := sent 2 (conn (upserted (priced_row 1 (Some dec_zero))
               (start [observation 1 dec_zero 1, observation 1 (Finite False 5 0) 2])))\<rparr>)
   \<and> history ((upserted (priced_row 1 (Some dec_zero))
               (start [observation 1 dec_zero 1, observation 1 (Finite False 5 0) 2]))
            \<lparr>conn := sent 2 (conn (upserted (priced_row 1 (Some dec_zero))
               (start [observation 1 dec_zero 1, observation 1 (Finite False 5 0) 2])))\<rparr>)
     = [observation 1 dec_zero 1, observation 1 (Finite False 5 0) 2]
   \<and> prices_inserted ((upserted (priced_row 1 (Some dec_zero))
               (start [observation 1 dec_zero 1, observation 1 (Finite False 5 0) 2]))
            \<lparr>conn := sent 2 (conn (upserted (priced_row 1 (Some dec_zero))
               (start [observation 1 dec_zero 1, observation 1 (Finite False 5 0) 2])))\<rparr>) = 0
   \<and> prices_updated ((upserted (priced_row 1 (Some dec_zero))
               (start [observation 1 dec_zero 1, observation 1 (Finite False 5 0) 2]))
            \<lparr>conn := sent 2 (conn (upserted (priced_row 1 (Some dec_zero))
               (start [observation 1 dec_zero 1, observation 1 (Finite False 5 0) 2])))\<rparr>) = 0"
proof -
  have read: "read_rows [dict_row_of product_header [''1'', ''Salt'', ''abc'']] [] []
     = (Inr [priced_row 1 (Some dec_zero)], [])"
    by (simp add: row_eval priced_row_def parse_decimal_def decimal_eval)
  have hist: "history (start [observation 1 dec_zero 1, observation 1 (Finite False 5 0) 2])
      = [observation 1 dec_zero 1, observation 1 (Finite False 5 0) 2]"
    by (simp add: start_def history_def get_connection_def empty_db_def)
  have lat: "latest_price 1 [observation 1 dec_zero 1, observation 1 (Finite False 5 0) 2]
      = Some (Finite False 5 0)"
    by (simp add: latest_price_def observation_def)
  have fnd: "find (at_key 1 1) [observation 1 dec_zero 1, observation 1 (Finite False 5 0) 2]
      = Some (observation 1 dec_zero 1)"
    by (simp add: at_key_def observation_def)
  have cmp: "dec_ne (Finite False 5 0) dec_zero = Inr True \<and> dec_ne dec_zero dec_zero = Inr False"
    by (simp add: dec_ne_def dec_zero_def signed_def)
  have run: "import_product no_failure fixed_clock True (Some 1) (priced_row 1 (Some dec_zero))
       (start [observation 1 dec_zero 1, observation 1 (Finite False 5 0) 2])
     = Inr ((upserted (priced_row 1 (Some dec_zero))
               (start [observation 1 dec_zero 1, observation 1 (Finite False 5 0) 2]))
            \<lparr>conn := sent 2 (conn (upserted (priced_row 1 (Some dec_zero))
               (start [observation 1 dec_zero 1, observation 1 (Finite False 5 0) 2])))\<rparr>)"
    by (simp add: import_product_ok reconcile_price_ok upserted_simps(1) priced_row_simps
        hist lat cmp price_differs_def price_changed_def observation_simps at_key_def)
  have counters: "prices_inserted (start [observation 1 dec_zero 1, observation 1 (Finite False 5 0) 2]) = 0
      \<and> prices_updated (start [observation 1 dec_zero 1, observation 1 (Finite False 5 0) 2]) = 0"
    by (simp add: start_def)
  show ?thesis
    using read run hist lat cmp counters
    by (simp add: history_simps upserted_simps)
qed


lemma dec_eq_zero: "dec_eq dec_zero dec_zero = Inr True"
  by (simp add: dec_zero_def)

text \<open>
  Claim C10, amended. A product row whose cost cell is present, not blank and not a
  number after cleaning is not skipped: the reader returns it with cost 0. When no
  statement fails, the importer reconciles cost 0 into the history: unless the latest
  price of the product is 0 already (then the price is reported unchanged), the
  observation is inserted, or an observation at that timestamp with another cost is
  corrected to 0, or an observation at that timestamp that has cost 0 already is left
  as it is; in each case the history then holds cost 0 at that timestamp.
\<close>

theorem malformed_cost_reconciles_zero:
  assumes "clean_row r = Inr row_data"
      and "product_id_of row_data = Inr pid"
      and "dict_get row_data ''cost_per_unit'' = Some text"
      and "text \<noteq> []"
      and "Decimal (filter (\<lambda>c. c \<noteq> CHR '','') (py_strip text)) = Inl InvalidOperation"
      and "price_differs (latest_price pid (history st)) dec_zero = Inr differs"
      and "price_differs (map_option cost_per_unit (find (at_key pid ts) (history st))) dec_zero
             = Inr stale"
  shows "\<exists>p st'. read_rows [r] [] [] = (Inr [p], [])
           \<and> row_product_id p = pid
           \<and> row_cost_per_unit p = Some dec_zero
           \<and> import_product no_failure clock True (Some ts) p st = Inr st'
           \<and> history st' =
               (if differs \<and> stale
                then (case find (at_key pid ts) (history st) of
                        None \<Rightarrow> history st @ [observation pid dec_zero ts]
                      | Some existing \<Rightarrow> set_cost pid ts dec_zero (history st))
                else history st)
           \<and> (if differs
               then \<exists>r0. find (at_key pid ts) (history st') = Some r0
                         \<and> dec_eq (cost_per_unit r0) dec_zero = Inr True
               else out st' = out st @ [Price_unchanged pid dec_zero])"
proof -
  let ?p = "\<lparr>row_product_id = pid,
             row_product_name = dict_get row_data ''product_name'',
             row_source = dict_get row_data ''source'',
             row_unit = dict_get row_data ''unit'',
             row_cost_per_unit = Some dec_zero\<rparr>"
  have cost: "parse_cost row_data = Inr (Some dec_zero)"
    using assms(3-5) by (simp add: parse_cost_def malformed_cost_is_zero)
  have read: "read_rows [r] [] [] = (Inr [?p], [])"
    using assms(1,2) cost by simp
  have run: "import_product no_failure clock True (Some ts) ?p st =
               reconcile_price no_failure clock (Some ts) pid dec_zero (upserted ?p st)"
    by (simp add: import_product_ok)
  show ?thesis
  proof (cases differs)
    case False
    with assms(6) have "reconcile_price no_failure clock (Some ts) pid dec_zero (upserted ?p st)
        = Inr ((upserted ?p st)\<lparr>conn := sent 1 (conn (upserted ?p st)),
                                 out := out (upserted ?p st) @ [Price_unchanged pid dec_zero]\<rparr>)"
      by (simp add: reconcile_price_ok upserted_simps)
    with read run False show ?thesis
      by (simp add: history_simps upserted_simps)
  next
    case True
    note differs = this
    show ?thesis
    proof (cases "find (at_key pid ts) (history st)")
      case None
      with assms(6,7) differs
      have "reconcile_price no_failure clock (Some ts) pid dec_zero (upserted ?p st)
              = price_changed ts pid dec_zero (latest_price pid (history st)) (upserted ?p st)"
        and "stale"
        by (simp_all add: reconcile_price_ok upserted_simps price_differs_def)
      with read run differs None show ?thesis
        by (auto simp: price_changed_def history_simps upserted_simps Let_def find_snoc
            at_key_def observation_simps dec_eq_zero split: option.splits)
    next
      case (Some existing)
      with assms(7) have ne: "dec_ne (cost_per_unit existing) dec_zero = Inr stale"
        by (simp add: price_differs_def)
      from assms(6) differs
      have rec: "reconcile_price no_failure clock (Some ts) pid dec_zero (upserted ?p st)
              = price_changed ts pid dec_zero (latest_price pid (history st)) (upserted ?p st)"
        by (simp add: reconcile_price_ok upserted_simps)
      show ?thesis
      proof (cases stale)
        case True
        with read run rec differs Some ne show ?thesis
          by (auto simp: price_changed_def history_simps upserted_simps Let_def find_set_cost
              dec_eq_zero split: option.splits)
      next
        case False
        with ne have "dec_eq (cost_per_unit existing) dec_zero = Inr True"
          by (simp add: dec_ne_False)
        with False read run rec differs Some ne show ?thesis
          by (auto simp: price_changed_def history_simps upserted_simps Let_def
              split: option.splits)
      qed
    qed
  qed
qed

theorem malformed_cost_reconciles_zero_witness:
  "clean_row (dict_row_of product_header [''1'', ''Salt'', ''abc''])
     = Inr [(''product_id'', Some ''1''), (''product_name'', Some ''Salt''),
            (''cost_per_unit'', Some ''abc'')]
   \<and> product_id_of [(''product_id'', Some ''1''), (''product_name'', Some ''Salt''),
                      (''cost_per_unit'', Some ''abc'')] = Inr 1
   \<and> dict_get [(''product_id'', Some ''1''), (''product_name'', Some ''Salt''),
                 (''cost_per_unit'', Some ''abc'')] ''cost_per_unit'' = Some ''abc''
   \<and> ''abc'' \<noteq> []
   \<and> Decimal (filter (\<lambda>c. c \<noteq> CHR '','') (py_strip ''abc'')) = Inl InvalidOperation
   \<and> price_differs (latest_price 1 (history (start [observation 1 (Finite False 5 0) 1]))) dec_zero
       = Inr True
   \<and> price_differs (map_option cost_per_unit
                       (find (at_key 1 2) (history (start [observation 1 (Finite False 5 0) 1]))))
        dec_zero = Inr True
   \<and> (\<exists>p st'. read_rows [dict_row_of product_header [''1'', ''Salt'', ''abc'']] [] [] = (Inr [p], [])
           \<and> row_cost_per_unit p = Some dec_zero
           \<and> import_product no_failure fixed_clock True (Some 2) p
                (start [observation 1 (Finite False 5 0) 1]) = Inr st'
           \<and> history st' = [observation 1 (Finite False 5 0) 1, observation 1 dec_zero 2])"
proof -
  let ?r = "dict_row_of product_header [''1'', ''Salt'', ''abc'']"
  let ?d = "[(''product_id'', Some ''1''), (''product_name'', Some ''Salt''),
             (''cost_per_unit'', Some ''abc'')]"
  let ?st = "start [observation 1 (Finite False 5 0) 1]"
  have h1: "clean_row ?r = Inr ?d" by (simp add: row_eval)
  have h2: "product_id_of ?d = Inr 1" by (simp add: row_eval)
  have h3: "dict_get ?d ''cost_per_unit'' = Some ''abc''" by (simp add: row_eval)
  have h4: "''abc'' \<noteq> []" by simp
  have h5: "Decimal (filter (\<lambda>c. c \<noteq> CHR '','') (py_strip ''abc'')) = Inl InvalidOperation"
    by (simp add: decimal_eval)
  have hist: "history ?st = [observation 1 (Finite False 5 0) 1]"
    by (simp add: start_def history_def get_connection_def empty_db_def)
  have h6: "price_differs (latest_price 1 (history ?st)) dec_zero = Inr True"
    by (simp add: hist latest_price_def observation_simps price_differs_def dec_ne_def
        dec_zero_def signed_def)
  have h7: "price_differs (map_option cost_per_unit (find (at_key 1 2) (history ?st))) dec_zero
              = Inr True"
    by (simp add: hist at_key_def observation_simps price_differs_def)
  have none: "find (at_key 1 2) [observation 1 (Finite False 5 0) 1] = None"
    by (simp add: at_key_def observation_simps)
  from malformed_cost_reconciles_zero [OF h1 h2 h3 h4 h5 h6 h7, of fixed_clock]
    h1 h2 h3 h4 h5 h6 h7 hist none
  show ?thesis by auto
qed

section \<open>Rows with an invalid product identifier\<close>

lemma parse_decimal_Inr: "\<exists>d. parse_decimal v dflt = Inr d"
  by (auto simp: parse_decimal_def Let_def dest: Decimal_raises split: option.splits sum.splits)











section \<open>Bill totals\<close>

lemma parse_decimal_amount: "parse_decimal (dict_get r k) dec_zero = Inr (amount r k)"
  using parse_decimal_Inr [of "dict_get r k" dec_zero] by (auto simp: amount_def)

lemma then_do_Inr: "(then_do m f = Inr y) = (\<exists>x. m = Inr x \<and> f x = Inr y)"
  by (cases m) simp_all

lemma sum_from_Cons:
  "x = Inr v \<Longrightarrow> dec_add s v = Inr s' \<Longrightarrow> sum_from s (x # xs) = sum_from s' xs"
  by (simp add: sum_from_def)

lemma prepare_items_sums:
  assumes "for_each prepare_item items (s0, t0, p0) = Inr (s, t, p)"
  shows "sum_from s0 (map (\<lambda>r. dec_mul (amount r ''quantity'') (amount r ''product_price'')) items)
           = Inr s
       \<and> sum_from t0 (map (\<lambda>r. Inr (amount r ''tax_amount'')) items) = Inr t
       \<and> p = p0 @ map (\<lambda>r. \<lparr>prepared_product_name = dict_get r ''product_name'',
                                 prepared_quantity = amount r ''quantity'',
                                 prepared_unit_price = amount r ''product_price'',
                                 prepared_line_total = amount r ''total''\<rparr>) items"
  using assms
proof (induction items arbitrary: s0 t0 p0)
  case Nil
  then show ?case by (simp add: sum_from_def)
next
  case (Cons r rs)
  from Cons.prems obtain s1 t1 p1 where
    step: "prepare_item r (s0, t0, p0) = Inr (s1, t1, p1)"
    and rest: "for_each prepare_item rs (s1, t1, p1) = Inr (s, t, p)"
    by (auto split: sum.splits)
  from step obtain a where
    a: "dec_mul (amount r ''quantity'') (amount r ''product_price'') = Inr a"
    and s1: "dec_add s0 a = Inr s1"
    and t1: "dec_add t0 (amount r ''tax_amount'') = Inr t1"
    and p1: "p1 = p0 @ [\<lparr>prepared_product_name = dict_get r ''product_name'',
                          prepared_quantity = amount r ''quantity'',
                          prepared_unit_price = amount r ''product_price'',
                          prepared_line_total = amount r ''total''\<rparr>]"
    by (auto simp: prepare_item_def parse_decimal_amount then_do_Inr)
  from Cons.IH [OF rest] a s1 t1 p1 show ?case
    by (simp add: sum_from_Cons)
qed

lemma prepare_item_amounts:
  "prepare_item r (s, t, p) =
     then_do (dec_mul (amount r ''quantity'') (amount r ''product_price'')) (\<lambda>a.
     then_do (dec_add s a) (\<lambda>s'.
     then_do (dec_add t (amount r ''tax_amount'')) (\<lambda>t'.
       Inr (s', t', p @ [\<lparr>prepared_product_name = dict_get r ''product_name'',
                            prepared_quantity = amount r ''quantity'',
                            prepared_unit_price = amount r ''product_price'',
                            prepared_line_total = amount r ''total''\<rparr>]))))"
  by (simp add: prepare_item_def parse_decimal_amount)

lemma execute_Inr:
  "execute fails c f = Inr c' \<Longrightarrow>
     pending c' = f (pending c) \<and> committed c' = committed c \<and> in_transaction c'"
  by (auto simp: execute_def split: if_splits)

lemma insert_items_Inr:
  assumes "for_each (insert_item fails bid) its c = Inr c'" and "in_transaction c"
  shows "pending c' = (pending c)\<lparr>bill_item_table := bill_item_table (pending c) @ map (item_rec bid) its\<rparr>
       \<and> committed c' = committed c \<and> in_transaction c'"
  using assms
proof (induction its arbitrary: c)
  case Nil
  then show ?case by simp
next
  case (Cons it its)
  from Cons.prems obtain c1 where
    one: "insert_item fails bid it c = Inr c1"
    and rest: "for_each (insert_item fails bid) its c1 = Inr c'"
    by (auto split: sum.splits)
  from one have c1: "pending c1 = (pending c)\<lparr>bill_item_table := bill_item_table (pending c) @ [item_rec bid it]\<rparr>"
    "committed c1 = committed c" "in_transaction c1"
    using execute_Inr by (auto simp: insert_item_def)
  from Cons.IH [OF rest c1(3)] c1 show ?case by simp
qed

lemma commit_Inr:
  "commit fails c = Inr c' \<Longrightarrow> in_transaction c \<Longrightarrow> committed c' = pending c"
  by (auto simp: commit_def split: if_splits)

text \<open>
  Claim C4. Whenever a bill import completes, the store holds one more bill header and
  one more item per row. The header's subtotal is the sum over the rows of quantity
  times unit price, its tax total the sum of the rows' tax amounts, and its grand total
  subtotal plus tax total plus the shipping amount passed by the caller, all in the
  arithmetic of \<open>Decimal\<close>, added in row order. Every item carries the line total read
  from its row, not a product.
\<close>

theorem bill_totals:
  assumes "result (import_bill fails new_id csv csv_path vendor notes_text shipping currency_code
                     number date src db) = Inr ()"
  shows "\<exists>items subtotal tax grand.
           read_bill_csv csv = Inr items
         \<and> dec_sum (map (\<lambda>r. dec_mul (amount r ''quantity'') (amount r ''product_price'')) items)
             = Inr subtotal
         \<and> dec_sum (map (\<lambda>r. Inr (amount r ''tax_amount'')) items) = Inr tax
         \<and> then_do (dec_add subtotal tax) (\<lambda>x. dec_add x shipping) = Inr grand
         \<and> bill_table (persisted db (import_bill fails new_id csv csv_path vendor notes_text
                                       shipping currency_code number date src db))
             = bill_table db @
                 [\<lparr>bill_id = new_id, bill_number = number, vendor_name = vendor,
                   bill_source = (case src of None \<Rightarrow> csv_path
                                  | Some s \<Rightarrow> if s = [] then csv_path else s),
                   bill_date = date, currency = currency_code,
                   subtotal_amount = subtotal, tax_amount = tax,
                   shipping_amount = shipping, total_amount = grand,
                   bill_notes = notes_text\<rparr>]
         \<and> bill_item_table (persisted db (import_bill fails new_id csv csv_path vendor notes_text
                                            shipping currency_code number date src db))
             = bill_item_table db @
                 map (\<lambda>r. \<lparr>item_bill_id = new_id, item_product_id = None,
                            item_product_name = dict_get r ''product_name'',
                            quantity = amount r ''quantity'', item_unit = None,
                            unit_price = amount r ''product_price'',
                            line_total = amount r ''total''\<rparr>) items"
proof -
  let ?run = "import_bill fails new_id csv csv_path vendor notes_text shipping currency_code
                number date src db"
  from assms obtain items where items: "read_bill_csv csv = Inr items"
    by (cases "read_bill_csv csv") (simp_all add: import_bill_def)
  from assms items obtain subtotal tax prepared where
    loop: "for_each prepare_item items (dec_zero, dec_zero, []) = Inr (subtotal, tax, prepared)"
    by (cases "for_each prepare_item items (dec_zero, dec_zero, [])")
       (auto simp: import_bill_def)
  from assms items loop obtain grand where
    grand: "then_do (dec_add subtotal tax) (\<lambda>x. dec_add x shipping) = Inr grand"
    by (cases "then_do (dec_add subtotal tax) (\<lambda>x. dec_add x shipping)")
       (auto simp: import_bill_def then_do_Inr split: sum.splits)
  let ?header = "\<lparr>bill_id = new_id, bill_number = number, vendor_name = vendor,
                   bill_source = (case src of None \<Rightarrow> csv_path
                                  | Some s \<Rightarrow> if s = [] then csv_path else s),
                   bill_date = date, currency = currency_code,
                   subtotal_amount = subtotal, tax_amount = tax,
                   shipping_amount = shipping, total_amount = grand,
                   bill_notes = notes_text\<rparr>"
  have pre: "then_do (read_bill_csv csv) (\<lambda>items.
             case for_each prepare_item items (dec_zero, dec_zero, []) of
               Inl (e, acc) \<Rightarrow> Inl e
             | Inr (subtotal, tax_sum, prepared_items) \<Rightarrow>
                 then_do (dec_add subtotal tax_sum) (\<lambda>x.
                 then_do (dec_add x shipping) (\<lambda>grand.
                   Inr (subtotal, tax_sum, prepared_items, grand))))
            = Inr (subtotal, tax, prepared, grand)"
    using items loop grand by (auto simp: then_do_Inr)
  from assms obtain c1 where
    c1: "execute fails (get_connection db) (\<lambda>t. t\<lparr>bill_table := bill_table t @ [?header]\<rparr>) = Inr c1"
    by (cases "execute fails (get_connection db) (\<lambda>t. t\<lparr>bill_table := bill_table t @ [?header]\<rparr>)")
       (simp_all add: import_bill_def pre Let_def bill_failed_def)
  from assms c1 obtain c2 where
    c2: "for_each (insert_item fails new_id) prepared c1 = Inr c2"
    by (cases "for_each (insert_item fails new_id) prepared c1")
       (auto simp: import_bill_def pre Let_def bill_failed_def)
  from assms c1 c2 obtain c3 where
    c3: "commit fails c2 = Inr c3"
    by (cases "commit fails c2")
       (simp_all add: import_bill_def pre Let_def)
  from assms c1 c2 c3 have final: "final_conn ?run = Some (close c3)"
    by (simp add: import_bill_def pre Let_def)
  from execute_Inr [OF c1] have p1: "pending c1 = (pending (get_connection db))\<lparr>bill_table := bill_table (pending (get_connection db)) @ [?header]\<rparr>"
    and t1: "in_transaction c1" by simp_all
  from insert_items_Inr [OF c2 t1] have p2: "pending c2 = (pending c1)\<lparr>bill_item_table := bill_item_table (pending c1) @ map (item_rec new_id) prepared\<rparr>"
    and t2: "in_transaction c2" by simp_all
  from commit_Inr [OF c3 t2] have "committed c3 = pending c2" .
  with final p1 p2 have stored:
    "bill_table (persisted db ?run) = bill_table db @ [?header]"
    "bill_item_table (persisted db ?run) = bill_item_table db @ map (item_rec new_id) prepared"
    by (simp_all add: persisted_def close_def get_connection_def)
  from prepare_items_sums [OF loop] have sums:
    "dec_sum (map (\<lambda>r. dec_mul (amount r ''quantity'') (amount r ''product_price'')) items) = Inr subtotal"
    "dec_sum (map (\<lambda>r. Inr (amount r ''tax_amount'')) items) = Inr tax"
    and prepared: "prepared = map (\<lambda>r. \<lparr>prepared_product_name = dict_get r ''product_name'',
                                 prepared_quantity = amount r ''quantity'',
                                 prepared_unit_price = amount r ''product_price'',
                                 prepared_line_total = amount r ''total''\<rparr>) items"
    by (simp_all add: dec_sum_def sum_from_def)
  from stored(2) prepared have items_stored:
    "bill_item_table (persisted db ?run) = bill_item_table db @
       map (\<lambda>r. \<lparr>item_bill_id = new_id, item_product_id = None,
                  item_product_name = dict_get r ''product_name'',
                  quantity = amount r ''quantity'', item_unit = None,
                  unit_price = amount r ''product_price'',
                  line_total = amount r ''total''\<rparr>) items"
    by (simp add: item_rec_def comp_def)
  from items sums grand stored(1) items_stored show ?thesis by blast
qed


lemmas dec_arith_eval =
  dec_fix_def ndigits.simps prec_def Etop_def Etiny_def Emax_def Emin_def signed_def
  round_half_even_def dec_zero_def

theorem bill_totals_witness:
  "result (import_bill no_failure 1 bill_csv ''bill.csv'' None None (Finite False 300 (- 2))
             ''USD'' None None None empty_db) = Inr ()
   \<and> bill_table (persisted empty_db
         (import_bill no_failure 1 bill_csv ''bill.csv'' None None (Finite False 300 (- 2))
             ''USD'' None None None empty_db))
       = [\<lparr>bill_id = 1, bill_number = None, vendor_name = None, bill_source = ''bill.csv'',
           bill_date = None, currency = ''USD'',
           subtotal_amount = Finite False 2500 (- 2), tax_amount = Finite False 150 (- 2),
           shipping_amount = Finite False 300 (- 2), total_amount = Finite False 2950 (- 2),
           bill_notes = None\<rparr>]
   \<and> map line_total (bill_item_table (persisted empty_db
         (import_bill no_failure 1 bill_csv ''bill.csv'' None None (Finite False 300 (- 2))
             ''USD'' None None None empty_db)))
       = [Finite False 2000 (- 2), Finite False 475 (- 2)]"
proof -
  let ?run = "import_bill no_failure 1 bill_csv ''bill.csv'' None None (Finite False 300 (- 2))
                ''USD'' None None None empty_db"
  let ?r1 = "[(''product_name'', Some ''Flour''), (''quantity'', Some ''2''),
              (''product_price'', Some ''10.00''), (''tax_amount'', Some ''1.00''),
              (''total'', Some ''20.00'')]"
  let ?r2 = "[(''product_name'', Some ''Yeast''), (''quantity'', Some ''1''),
              (''product_price'', Some ''5.00''), (''tax_amount'', Some ''0.50''),
              (''total'', Some ''4.75'')]"
  have read: "read_bill_csv bill_csv = Inr [?r1, ?r2]"
    by (simp add: read_bill_csv_def bill_csv_def missing_columns_def bill_required_cols_def
        dict_rows_def dict_row_of_def strip_cells_def py_strip_def py_isspace_def)
  have cells:
    "amount ?r1 ''quantity'' = Finite False 2 0" "amount ?r1 ''product_price'' = Finite False 1000 (- 2)"
    "amount ?r1 ''tax_amount'' = Finite False 100 (- 2)" "amount ?r1 ''total'' = Finite False 2000 (- 2)"
    "amount ?r2 ''quantity'' = Finite False 1 0" "amount ?r2 ''product_price'' = Finite False 500 (- 2)"
    "amount ?r2 ''tax_amount'' = Finite False 50 (- 2)" "amount ?r2 ''total'' = Finite False 475 (- 2)"
    by (simp_all add: amount_def dict_get_def parse_decimal_def decimal_eval)
  have names: "dict_get ?r1 ''product_name'' = Some ''Flour''"
    "dict_get ?r2 ''product_name'' = Some ''Yeast''"
    by (simp_all add: dict_get_def)
  have prep: "for_each prepare_item [?r1, ?r2] (dec_zero, dec_zero, [])
      = Inr (Finite False 2500 (- 2), Finite False 150 (- 2),
             [\<lparr>prepared_product_name = Some ''Flour'', prepared_quantity = Finite False 2 0,
               prepared_unit_price = Finite False 1000 (- 2),
               prepared_line_total = Finite False 2000 (- 2)\<rparr>,
              \<lparr>prepared_product_name = Some ''Yeast'', prepared_quantity = Finite False 1 0,
               prepared_unit_price = Finite False 500 (- 2),
               prepared_line_total = Finite False 475 (- 2)\<rparr>])"
    by (simp add: prepare_item_amounts cells names dec_arith_eval)
  have h: "result ?run = Inr ()"
    unfolding import_bill_def read then_do.simps prep
    by (simp add: dec_arith_eval execute_def commit_def no_failure_def
        insert_item_def get_connection_def Let_def)
  from bill_totals [OF h] obtain items subtotal tax grand where
    i: "read_bill_csv bill_csv = Inr items"
    and s: "dec_sum (map (\<lambda>r. dec_mul (amount r ''quantity'') (amount r ''product_price'')) items)
             = Inr subtotal"
    and t: "dec_sum (map (\<lambda>r. Inr (amount r ''tax_amount'')) items) = Inr tax"
    and g: "then_do (dec_add subtotal tax) (\<lambda>x. dec_add x (Finite False 300 (- 2))) = Inr grand"
    and b: "bill_table (persisted empty_db ?run)
             = bill_table empty_db @
                 [\<lparr>bill_id = 1, bill_number = None, vendor_name = None,
                   bill_source = (case None of None \<Rightarrow> ''bill.csv''
                                  | Some s \<Rightarrow> if s = [] then ''bill.csv'' else s),
                   bill_date = None, currency = ''USD'',
                   subtotal_amount = subtotal, tax_amount = tax,
                   shipping_amount = Finite False 300 (- 2), total_amount = grand,
                   bill_notes = None\<rparr>]"
    and l: "bill_item_table (persisted empty_db ?run)
             = bill_item_table empty_db @
                 map (\<lambda>r. \<lparr>item_bill_id = 1, item_product_id = None,
                            item_product_name = dict_get r ''product_name'',
                            quantity = amount r ''quantity'', item_unit = None,
                            unit_price = amount r ''product_price'',
                            line_total = amount r ''total''\<rparr>) items"
    by blast
  from i read have items: "items = [?r1, ?r2]" by simp
  from s have subtotal: "subtotal = Finite False 2500 (- 2)"
    by (simp add: items cells dec_sum_def dec_arith_eval)
  from t have tax: "tax = Finite False 150 (- 2)"
    by (simp add: items cells dec_sum_def dec_arith_eval)
  from g have grand: "grand = Finite False 2950 (- 2)"
    by (simp add: subtotal tax dec_arith_eval)
  from h b l show ?thesis
    by (simp add: items cells subtotal tax grand empty_db_def)
qed

end
